theory Spec2Isabelle
  imports Main "HOL-Library.Sublist"
begin

section \<open>Python values\<close>

text \<open>
  A shallow embedding of \<^verbatim>\<open>python/setup.py\<close> (the pkg-config queries, the extension
  descriptor, the linker probe of \<^verbatim>\<open>build_ext\<close>) and of the registry at the end of
  \<^verbatim>\<open>src/python/torch/filters.py\<close>.

  For \<^verbatim>\<open>setup.py\<close> the model follows Python 3, which the file declares among its
  classifiers and caters for. There the output captured from a subprocess is a \<^verbatim>\<open>bytes\<close>
  object, so the test \<^verbatim>\<open>isinstance(output, bytes) and not isinstance(output, str)\<close>
  holds and the bytes are decoded. A \<^verbatim>\<open>bytes\<close> object is a list of 8-bit characters
  (\<^typ>\<open>string\<close>); a \<^verbatim>\<open>str\<close> is a list of Unicode code points. Exceptions are values of
  the type \<open>error\<close>, and a function that can raise returns a sum.
\<close>

type_synonym pystr = "nat list"

abbreviation str :: "string \<Rightarrow> pystr" where
  "str s \<equiv> map of_char s"

datatype error =
    OSError
  | UnicodeDecodeError
  | RuntimeError pystr
  | KeyError string
  | AttributeError string
  | ImportError
  | CompileError

subsection \<open>\<^verbatim>\<open>bytes.decode('utf8')\<close>\<close>

definition utf8_cont :: "nat \<Rightarrow> bool" where
  "utf8_cont b = (128 \<le> b \<and> b \<le> 191)"

text \<open>
  The strict decoder: shortest forms only, no surrogates, nothing above U+10FFFF.
  \<open>None\<close> stands for the \<^verbatim>\<open>UnicodeDecodeError\<close> that Python raises.
\<close>

fun utf8_points :: "nat list \<Rightarrow> pystr option" where
  "utf8_points [] = Some []"
| "utf8_points (b0 # bs) =
    (if b0 < 128 then map_option (Cons b0) (utf8_points bs)
     else if 194 \<le> b0 \<and> b0 \<le> 223 then
       (case bs of
          b1 # r \<Rightarrow>
            if utf8_cont b1
            then map_option (Cons ((b0 - 192) * 64 + (b1 - 128))) (utf8_points r)
            else None
        | _ \<Rightarrow> None)
     else if 224 \<le> b0 \<and> b0 \<le> 239 then
       (case bs of
          b1 # b2 # r \<Rightarrow>
            if utf8_cont b1 \<and> utf8_cont b2
               \<and> (b0 = 224 \<longrightarrow> 160 \<le> b1) \<and> (b0 = 237 \<longrightarrow> b1 \<le> 159)
            then map_option
                   (Cons ((b0 - 224) * 4096 + (b1 - 128) * 64 + (b2 - 128)))
                   (utf8_points r)
            else None
        | _ \<Rightarrow> None)
     else if 240 \<le> b0 \<and> b0 \<le> 244 then
       (case bs of
          b1 # b2 # b3 # r \<Rightarrow>
            if utf8_cont b1 \<and> utf8_cont b2 \<and> utf8_cont b3
               \<and> (b0 = 240 \<longrightarrow> 144 \<le> b1) \<and> (b0 = 244 \<longrightarrow> b1 \<le> 143)
            then map_option
                   (Cons ((b0 - 240) * 262144 + (b1 - 128) * 4096
                          + (b2 - 128) * 64 + (b3 - 128)))
                   (utf8_points r)
            else None
        | _ \<Rightarrow> None)
     else None)"

definition decode_utf8 :: "string \<Rightarrow> error + pystr" where
  "decode_utf8 bs =
     (case utf8_points (map of_char bs) of
        None \<Rightarrow> Inl UnicodeDecodeError
      | Some s \<Rightarrow> Inr s)"

subsection \<open>Whitespace: \<^verbatim>\<open>bytes.strip()\<close> and \<^verbatim>\<open>str.split()\<close>\<close>

definition bytes_isspace :: "char \<Rightarrow> bool" where
  "bytes_isspace c = ((of_char c :: nat) \<in> {9, 10, 11, 12, 13, 32})"

definition bytes_strip :: "string \<Rightarrow> string" where
  "bytes_strip bs = rev (dropWhile bytes_isspace (rev (dropWhile bytes_isspace bs)))"

definition str_isspace :: "nat \<Rightarrow> bool" where
  "str_isspace c =
     ((9 \<le> c \<and> c \<le> 13) \<or> (28 \<le> c \<and> c \<le> 32) \<or> c = 133 \<or> c = 160 \<or> c = 5760
      \<or> (8192 \<le> c \<and> c \<le> 8202) \<or> c = 8232 \<or> c = 8233 \<or> c = 8239 \<or> c = 8287
      \<or> c = 12288)"

text \<open>
  \<^verbatim>\<open>output.split()\<close>: the maximal runs of non-whitespace, in order. \<open>cur\<close> is the
  token being read.
\<close>

fun split_loop :: "pystr \<Rightarrow> pystr \<Rightarrow> pystr list" where
  "split_loop cur [] = (if cur = [] then [] else [cur])"
| "split_loop cur (c # cs) =
     (if str_isspace c
      then (if cur = [] then split_loop [] cs else cur # split_loop [] cs)
      else split_loop (cur @ [c]) cs)"

definition split :: "pystr \<Rightarrow> pystr list" where
  "split s = split_loop [] s"

section \<open>\<^verbatim>\<open>pkgconfig\<close>: the flag classifier\<close>

text \<open>
  \<^verbatim>\<open>uniq(seq)\<close> with \<^verbatim>\<open>idfun\<close> the identity: \<open>seen\<close> is the dictionary of markers,
  \<open>result\<close> the list built so far.
\<close>

fun uniq_loop :: "('a \<rightharpoonup> nat) \<Rightarrow> 'a list \<Rightarrow> 'a list \<Rightarrow> 'a list" where
  "uniq_loop seen result [] = result"
| "uniq_loop seen result (item # seq) =
     (if seen item \<noteq> None then uniq_loop seen result seq
      else uniq_loop (seen(item \<mapsto> 1)) (result @ [item]) seq)"

definition uniq :: "'a list \<Rightarrow> 'a list" where
  "uniq seq = uniq_loop Map.empty [] seq"

definition flag_map :: "pystr \<rightharpoonup> string" where
  "flag_map =
     [str ''-I'' \<mapsto> ''include_dirs'',
      str ''-L'' \<mapsto> ''library_dirs'',
      str ''-l'' \<mapsto> ''libraries'']"

type_synonym flags = "string \<rightharpoonup> pystr list"

text \<open>\<^verbatim>\<open>kw.setdefault(k, []).append(v)\<close>\<close>

definition setdefault_append :: "flags \<Rightarrow> string \<Rightarrow> pystr \<Rightarrow> flags" where
  "setdefault_append kw k v = kw(k \<mapsto> (case kw k of None \<Rightarrow> [] | Some vs \<Rightarrow> vs) @ [v])"

fun token_loop :: "flags \<Rightarrow> pystr list \<Rightarrow> flags" where
  "token_loop kw [] = kw"
| "token_loop kw (token # rest) =
     token_loop
       (case flag_map (take 2 token) of
          Some k \<Rightarrow> setdefault_append kw k (drop 2 token)
        | None \<Rightarrow> setdefault_append kw ''extra_compile_args'' token)
       rest"

text \<open>\<^verbatim>\<open>for k, v in kw.items(): kw[k] = uniq(v)\<close>\<close>

definition uniq_items :: "flags \<Rightarrow> flags" where
  "uniq_items kw = (\<lambda>k. map_option uniq (kw k))"

text \<open>Lines 79 to 91 of \<^verbatim>\<open>pkgconfig\<close>, from the tokens to the returned dictionary.\<close>

definition classify :: "pystr list \<Rightarrow> flags" where
  "classify tokens = uniq_items (token_loop Map.empty tokens)"

text \<open>
  What the specification asks of a bucket: duplicates removed, every value staying at the
  place of its first occurrence.
\<close>

fun dedup_first :: "'a list \<Rightarrow> 'a list" where
  "dedup_first [] = []"
| "dedup_first (x # xs) = x # dedup_first (filter (\<lambda>y. y \<noteq> x) xs)"

text \<open>A key is bound in the returned dictionary only if something was appended to it.\<close>

definition bucket :: "pystr list \<Rightarrow> pystr list option" where
  "bucket vs = (if vs = [] then None else Some vs)"

text \<open>The bucket a token goes to, and the value appended there.\<close>

definition target :: "pystr \<Rightarrow> string" where
  "target token =
     (case flag_map (take 2 token) of Some k \<Rightarrow> k | None \<Rightarrow> ''extra_compile_args'')"

definition payload :: "pystr \<Rightarrow> pystr" where
  "payload token =
     (case flag_map (take 2 token) of Some k \<Rightarrow> drop 2 token | None \<Rightarrow> token)"

section \<open>\<^verbatim>\<open>pkgconfig\<close> and \<^verbatim>\<open>bob_variables\<close>: querying pkg-config\<close>

record proc =
  returncode :: int
  stdout :: string

text \<open>
  What \<^verbatim>\<open>setup.py\<close> reads from its surroundings. \<open>popen cmd\<close> is
  \<^verbatim>\<open>subprocess.Popen(cmd, ...)\<close> followed by \<^verbatim>\<open>communicate()\<close>: either the exception
  raised when the program cannot be started, or the exit status and the captured bytes.
  pkg-config only reads, so its outcome is a function of the command line.
  \<open>numpy_get_include\<close> is \<open>None\<close> when \<^verbatim>\<open>import numpy\<close> fails.
\<close>

record env =
  popen :: "pystr list \<Rightarrow> error + proc"
  path_exists :: "pystr \<Rightarrow> bool"
  DESTDIR :: pystr
  version_info :: "nat \<times> nat"
  platform_system :: pystr
  numpy_get_include :: "pystr option"

definition pkgconfig :: "env \<Rightarrow> pystr \<Rightarrow> error + flags" where
  "pkgconfig e package =
     (case popen e [str ''pkg-config'', str ''--libs'', str ''--cflags'', package] of
        Inl err \<Rightarrow> Inl err
      | Inr p \<Rightarrow>
          (case decode_utf8 (stdout p) of
             Inl err \<Rightarrow> Inl err
           | Inr output \<Rightarrow>
               if returncode p \<noteq> 0 then Inr Map.empty
               else Inr (classify (split output))))"

definition get_var :: "env \<Rightarrow> pystr \<Rightarrow> error + pystr option" where
  "get_var e name =
     (case popen e [str ''pkg-config'', str ''--variable='' @ name, str ''bob''] of
        Inl err \<Rightarrow> Inl err
      | Inr p \<Rightarrow>
          (case decode_utf8 (bytes_strip (stdout p)) of
             Inl err \<Rightarrow> Inl err
           | Inr var \<Rightarrow> if returncode p \<noteq> 0 then Inr None else Inr (Some var)))"

text \<open>The dictionary \<^verbatim>\<open>BOB\<close>; each value is a \<^verbatim>\<open>str\<close> or \<^verbatim>\<open>None\<close>.\<close>

record bob =
  version :: "pystr option"
  base_libdir :: "pystr option"
  base_includedir :: "pystr option"

definition bob_variables :: "env \<Rightarrow> error + bob" where
  "bob_variables e =
     (case popen e [str ''pkg-config'', str ''--modversion'', str ''bob''] of
        Inl err \<Rightarrow> Inl err
      | Inr p \<Rightarrow>
          (case decode_utf8 (bytes_strip (stdout p)) of
             Inl err \<Rightarrow> Inl err
           | Inr output \<Rightarrow>
               (let kw_version = (if returncode p = 0 then Some output else None)
                in if kw_version = None
                   then Inl (RuntimeError
                          (str ''Cannot retrieve Bob version from pkg-config:'' @ [10] @ output))
                   else
                     (case get_var e (str ''libdir'') of
                        Inl err \<Rightarrow> Inl err
                      | Inr libdir \<Rightarrow>
                          (case get_var e (str ''includedir'') of
                             Inl err \<Rightarrow> Inl err
                           | Inr includedir \<Rightarrow>
                               Inr \<lparr>version = kw_version, base_libdir = libdir,
                                    base_includedir = includedir\<rparr>)))))"

section \<open>\<^verbatim>\<open>setup_extension\<close>: the extension descriptor\<close>

subsection \<open>Strings and paths (POSIX)\<close>

definition os_sep :: pystr where
  "os_sep = str ''/''"

definition lstrip :: "pystr \<Rightarrow> pystr \<Rightarrow> pystr" where
  "lstrip s chars = dropWhile (\<lambda>c. c \<in> set chars) s"

definition rstrip :: "pystr \<Rightarrow> pystr \<Rightarrow> pystr" where
  "rstrip s chars = rev (dropWhile (\<lambda>c. c \<in> set chars) (rev s))"

definition strip :: "pystr \<Rightarrow> pystr \<Rightarrow> pystr" where
  "strip s chars = rstrip (lstrip s chars) chars"

text \<open>\<^verbatim>\<open>posixpath.join(a, b)\<close>\<close>

definition os_path_join :: "pystr \<Rightarrow> pystr \<Rightarrow> pystr" where
  "os_path_join a b =
     (if prefix os_sep b then b
      else if a = [] \<or> suffix os_sep a then a @ b
      else a @ os_sep @ b)"

text \<open>\<^verbatim>\<open>s.find(sub)\<close>: the least index where \<open>sub\<close> occurs in \<open>s\<close>, or \<open>-1\<close>.\<close>

fun str_find :: "pystr \<Rightarrow> pystr \<Rightarrow> int" where
  "str_find [] sub = (if sub = [] then 0 else - 1)"
| "str_find (c # s) sub =
     (if prefix sub (c # s) then 0
      else (let i = str_find s sub in if i = - 1 then - 1 else i + 1))"

text \<open>\<^verbatim>\<open>'%d' % n\<close> for a natural number.\<close>

fun fmt_d :: "nat \<Rightarrow> pystr" where
  "fmt_d n = (if n < 10 then [48 + n] else fmt_d (n div 10) @ [48 + n mod 10])"

declare fmt_d.simps [simp del]

text \<open>\<^verbatim>\<open>d.get(k, [])\<close>\<close>

definition dict_get :: "flags \<Rightarrow> string \<Rightarrow> pystr list" where
  "dict_get d k = (case d k of None \<Rightarrow> [] | Some v \<Rightarrow> v)"

subsection \<open>The descriptor\<close>

record extension =
  ext_name :: pystr
  ext_sources :: "pystr list"
  ext_language :: pystr
  ext_include_dirs :: "pystr list"
  ext_library_dirs :: "pystr list"
  ext_runtime_library_dirs :: "pystr list"
  ext_libraries :: "pystr list"

text \<open>
  Lines 197 to 200: the two \<^verbatim>\<open>insert(0, ...)\<close> of a caged build. Calling \<^verbatim>\<open>lstrip\<close> or
  \<^verbatim>\<open>strip\<close> on \<^verbatim>\<open>None\<close> raises \<^verbatim>\<open>AttributeError\<close>.
\<close>

definition caged_dirs ::
  "env \<Rightarrow> bob \<Rightarrow> pystr list \<Rightarrow> pystr list \<Rightarrow> error + (pystr list \<times> pystr list)" where
  "caged_dirs e BOB library_dirs include_dirs =
     (if length (DESTDIR e) \<noteq> 0 then
        (case base_libdir BOB of
           None \<Rightarrow> Inl (AttributeError ''lstrip'')
         | Some libdir \<Rightarrow>
             (case base_includedir BOB of
                None \<Rightarrow> Inl (AttributeError ''strip'')
              | Some includedir \<Rightarrow>
                  Inr (os_path_join (DESTDIR e) (lstrip libdir os_sep) # library_dirs,
                       os_path_join (DESTDIR e) (strip includedir os_sep) # include_dirs)))
      else Inr (library_dirs, include_dirs))"

text \<open>Line 190: \<^verbatim>\<open>pc_file + '%d%d' % sys.version_info[:2]\<close>\<close>

definition package_name :: "env \<Rightarrow> pystr \<Rightarrow> pystr" where
  "package_name e pc_file =
     pc_file @ fmt_d (fst (version_info e)) @ fmt_d (snd (version_info e))"

definition setup_extension :: "env \<Rightarrow> bob \<Rightarrow> pystr \<Rightarrow> pystr \<Rightarrow> error + extension" where
  "setup_extension e BOB name pc_file =
     (case numpy_get_include e of
        None \<Rightarrow> Inl ImportError
      | Some numpy_include \<Rightarrow>
          (case pkgconfig e (package_name e pc_file) of
             Inl err \<Rightarrow> Inl err
           | Inr pc \<Rightarrow>
               (case caged_dirs e BOB
                       (filter (path_exists e) (dict_get pc ''library_dirs''))
                       (filter (path_exists e) (dict_get pc ''include_dirs'')) of
                  Inl err \<Rightarrow> Inl err
                | Inr (library_dirs, include_dirs) \<Rightarrow>
                    (let sources =
                           (if str_find (platform_system e) (str ''CYGWIN'') \<noteq> - 1
                            then [str ''empty.c''] else [])
                     in case pc ''libraries'' of
                          None \<Rightarrow> Inl (KeyError ''libraries'')
                        | Some libs \<Rightarrow>
                            Inr \<lparr>ext_name = name,
                                 ext_sources = sources,
                                 ext_language = str ''c++'',
                                 ext_include_dirs = include_dirs @ [numpy_include],
                                 ext_library_dirs = library_dirs,
                                 ext_runtime_library_dirs = library_dirs,
                                 ext_libraries = libs\<rparr>))))"

section \<open>\<^verbatim>\<open>build_ext\<close>: the linker probe\<close>

text \<open>
  An attribute of the compiler object: absent (\<^verbatim>\<open>hasattr\<close> is false), bound to
  \<^verbatim>\<open>None\<close>, or bound to a value.
\<close>

datatype 'a attr = NoAttr | IsNone | Value 'a

record ccompiler =
  linker_so :: "pystr list"
  dll_libraries :: "pystr list attr"

text \<open>
  Line 141 binds \<^verbatim>\<open>linker_is_smart\<close> in the class; nothing assigns to the class attribute
  afterwards. \<^verbatim>\<open>self.linker_is_smart = ...\<close> binds the name in the instance, and reading
  \<^verbatim>\<open>self.linker_is_smart\<close> finds the instance's binding first, the class's otherwise.
\<close>

definition class_linker_is_smart :: "bool option" where
  "class_linker_is_smart = None"

record build_ext =
  self_linker_is_smart :: "bool option option"
  compiler :: ccompiler

definition get_linker_is_smart :: "build_ext \<Rightarrow> bool option" where
  "get_linker_is_smart self =
     (case self_linker_is_smart self of
        Some v \<Rightarrow> v
      | None \<Rightarrow> class_linker_is_smart)"

text \<open>A command object as \<^verbatim>\<open>__init__\<close> leaves it, around a given compiler.\<close>

definition new_build_ext :: "ccompiler \<Rightarrow> build_ext" where
  "new_build_ext c = \<lparr>self_linker_is_smart = None, compiler = c\<rparr>"

text \<open>
  The part of the world that builds change: the files that exist, the command line of
  every link the probe has started, the number of temporary files made, and the linker
  invocation every call of the base class's \<^verbatim>\<open>build_extension\<close> was given.
\<close>

record world =
  files :: "pystr set"
  link_attempts :: "pystr list list"
  mkstemp_calls :: nat
  base_builds :: "pystr list list"

text \<open>The linker as a process: its exit status and output, and whether the path given after
  \<^verbatim>\<open>-o\<close> exists when it has exited.\<close>

record linked = proc +
  output_left :: bool

text \<open>
  The tools a build runs. \<open>mkstemp\<close> names a new file (or raises); \<open>run_linker cmd\<close> is
  \<^verbatim>\<open>subprocess.Popen(cmd, ...)\<close> with \<^verbatim>\<open>communicate()\<close> for the probe's command line;
  \<open>base_build_extension\<close> is \<^verbatim>\<open>build_ext_base.build_extension\<close>, which may raise.
\<close>

record toolchain =
  mkstemp :: "pystr set \<Rightarrow> error + pystr"
  run_linker :: "pystr list \<Rightarrow> error + linked"
  base_build_extension :: "extension \<Rightarrow> ccompiler \<Rightarrow> error option"

definition linker_can_remove_symbols ::
  "toolchain \<Rightarrow> pystr list \<Rightarrow> world \<Rightarrow> (error + bool) \<times> world" where
  "linker_can_remove_symbols tc linker w =
     (case mkstemp tc (files w) of
        Inl err \<Rightarrow> (Inl err, w)
      | Inr name \<Rightarrow>
          (let w1 = w\<lparr>files := insert name (files w), mkstemp_calls := Suc (mkstemp_calls w)\<rparr>;
               cmd = linker @ [str ''-Wl,--no-as-needed'', str ''-lm'', str ''-o'', name];
               w2 = w1\<lparr>link_attempts := link_attempts w1 @ [cmd]\<rparr>
           in case run_linker tc cmd of
                Inl err \<Rightarrow> (Inl err, w2)
              | Inr p \<Rightarrow>
                  (let w3 = w2\<lparr>files := (if output_left p then insert name (files w2)
                                           else files w2 - {name})\<rparr>
                   in case decode_utf8 (stdout p) of
                        Inl err \<Rightarrow> (Inl err, w3)
                      | Inr output \<Rightarrow>
                          (let w4 = (if name \<in> files w3
                                     then w3\<lparr>files := files w3 - {name}\<rparr> else w3)
                           in (Inr (if returncode p = 0 then True else False), w4)))))"

definition ld_ok :: "pystr \<Rightarrow> bool" where
  "ld_ok opt = (if str_find opt (str ''-L'') = 0 then False else True)"

definition set_linker_so :: "build_ext \<Rightarrow> pystr list \<Rightarrow> build_ext" where
  "set_linker_so self l = self\<lparr>compiler := (compiler self)\<lparr>linker_so := l\<rparr>\<rparr>"

text \<open>Lines 175 to 177. The first component is the exception that left the method, if any.\<close>

definition probe_once ::
  "toolchain \<Rightarrow> build_ext \<Rightarrow> world \<Rightarrow> error option \<times> build_ext \<times> world" where
  "probe_once tc self w =
     (if get_linker_is_smart self = None then
        (case linker_can_remove_symbols tc (linker_so (compiler self)) w of
           (Inl err, w') \<Rightarrow> (Some err, self, w')
         | (Inr smart, w') \<Rightarrow>
             (let self1 = self\<lparr>self_linker_is_smart := Some (Some smart)\<rparr>
              in if get_linker_is_smart self1 = Some True
                 then (None,
                       set_linker_so self1
                         (linker_so (compiler self1) @ [str ''-Wl,--no-as-needed'']), w')
                 else (None, self1, w')))
      else (None, self, w))"

definition build_extension ::
  "toolchain \<Rightarrow> extension \<Rightarrow> build_ext \<Rightarrow> world \<Rightarrow> error option \<times> build_ext \<times> world" where
  "build_extension tc ext self w =
     (case probe_once tc
             (set_linker_so self (filter ld_ok (linker_so (compiler self)))) w of
        (Some err, self1, w1) \<Rightarrow> (Some err, self1, w1)
      | (None, self1, w1) \<Rightarrow>
          (let self2 =
                 (if dll_libraries (compiler self1) = IsNone
                  then self1\<lparr>compiler := (compiler self1)\<lparr>dll_libraries := Value []\<rparr>\<rparr>
                  else self1)
           in (base_build_extension tc ext (compiler self2), self2,
               w1\<lparr>base_builds := base_builds w1 @ [linker_so (compiler self2)]\<rparr>)))"

text \<open>
  Several builds by one command object, one after the other, whatever each of them
  raised.
\<close>

fun build_extensions ::
  "toolchain \<Rightarrow> extension list \<Rightarrow> build_ext \<Rightarrow> world \<Rightarrow> build_ext \<times> world" where
  "build_extensions tc [] self w = (self, w)"
| "build_extensions tc (ext # exts) self w =
     (case build_extension tc ext self w of
        (_, self1, w1) \<Rightarrow> build_extensions tc exts self1 w1)"

section \<open>\<^verbatim>\<open>filters.py\<close>: the registry of filters\<close>

text \<open>
  A class object is known by its name and its direct base classes. A value bound in the
  module is a class that is an instance of \<^verbatim>\<open>type\<close>, or something else: a module, a
  string, a list, or (the file is Python 2) an old-style class.
\<close>

datatype cls = Cls string "cls list"

datatype pyval = PyType cls | PyOther string

text \<open>\<^verbatim>\<open>issubclass(c, base)\<close>: \<open>base\<close> is \<open>c\<close> or an ancestor of \<open>c\<close>.\<close>

fun issubclass :: "cls \<Rightarrow> cls \<Rightarrow> bool" where
  "issubclass (Cls n bases) base =
     (Cls n bases = base \<or> list_ex (\<lambda>b. issubclass b base) bases)"

text \<open>The test of line 62.\<close>

definition is_filter :: "cls \<Rightarrow> pyval \<Rightarrow> bool" where
  "is_filter Filter v =
     (case v of
        PyType c \<Rightarrow> issubclass c Filter \<and> c \<noteq> Filter
      | PyOther _ \<Rightarrow> False)"

text \<open>Lines 59 to 63, over the items of the copied scope in the order of iteration.\<close>

fun filters_loop :: "cls \<Rightarrow> pyval list \<Rightarrow> (string \<times> pyval) list \<Rightarrow> pyval list" where
  "filters_loop Filter FILTERS [] = FILTERS"
| "filters_loop Filter FILTERS ((k, v) # items) =
     (if is_filter Filter v then filters_loop Filter (FILTERS @ [v]) items
      else filters_loop Filter FILTERS items)"

text \<open>
  The list \<^verbatim>\<open>FILTERS\<close> once the loop has run, for a base class and a scope: what the
  specification calls \<^verbatim>\<open>discover(base_capability, declaration_scope)\<close>.
\<close>

definition discover :: "cls \<Rightarrow> (string \<times> pyval) list \<Rightarrow> pyval list" where
  "discover Filter scope = filters_loop Filter [] scope"

section \<open>Concrete surroundings\<close>

text \<open>
  A POSIX machine where every path exists and numpy is installed, around a given
  pkg-config and a given \<^verbatim>\<open>DESTDIR\<close>.
\<close>

definition posix_env :: "(pystr list \<Rightarrow> error + proc) \<Rightarrow> pystr \<Rightarrow> env" where
  "posix_env run destdir =
     \<lparr>popen = run, path_exists = (\<lambda>p. True), DESTDIR = destdir, version_info = (3, 8),
      platform_system = str ''Linux'', numpy_get_include = Some (str ''/numpy/include'')\<rparr>"

text \<open>A pkg-config that answers every query with the same exit status and output.\<close>

definition exits :: "int \<Rightarrow> string \<Rightarrow> pystr list \<Rightarrow> error + proc" where
  "exits rc out cmd = Inr \<lparr>returncode = rc, stdout = out\<rparr>"

text \<open>
  A pkg-config that knows the version of \<^verbatim>\<open>bob\<close> and fails every other query with
  the given output.
\<close>

definition bob_found_dirs_missing :: "string \<Rightarrow> pystr list \<Rightarrow> error + proc" where
  "bob_found_dirs_missing out cmd =
     (if cmd = [str ''pkg-config'', str ''--modversion'', str ''bob'']
      then Inr \<lparr>returncode = 0, stdout = ''1.2.0'' @ [CHR 0x0A]\<rparr>
      else Inr \<lparr>returncode = 1, stdout = out\<rparr>)"

text \<open>
  The toolbox installed under \<^verbatim>\<open>/usr\<close>, and a caged build under \<^verbatim>\<open>/stage\<close> whose
  pkg-config reports one include directory, one library directory and one library.
\<close>

definition bob_installed :: bob where
  "bob_installed =
     \<lparr>version = Some (str ''1.2.0''), base_libdir = Some (str ''/usr/lib''),
      base_includedir = Some (str ''/usr/include'')\<rparr>"

definition staged_env :: env where
  "staged_env =
     posix_env (exits 0 (''-I/usr/local/include -L/usr/local/lib -lbob_core'' @ [CHR 0x0A]))
       (str ''/stage'')"

text \<open>
  A compiler whose linker invocation carries a stale search path, a world with no file
  and no history, and three toolchains: one whose linker accepts the flag, one whose
  linker rejects it, one whose linker cannot be started.
\<close>

definition gcc :: ccompiler where
  "gcc = \<lparr>linker_so = [str ''gcc'', str ''-shared'', str ''-L/opt/stale/lib'', str ''-pthread''],
          dll_libraries = NoAttr\<rparr>"

definition empty_world :: world where
  "empty_world = \<lparr>files = {}, link_attempts = [], mkstemp_calls = 0, base_builds = []\<rparr>"

definition gnu_toolchain :: toolchain where
  "gnu_toolchain =
     \<lparr>mkstemp = (\<lambda>fs. Inr (str ''/tmp/tmpq3x'')),
      run_linker = (\<lambda>cmd. Inr \<lparr>returncode = 0, stdout = [], output_left = True\<rparr>),
      base_build_extension = (\<lambda>ext c. None)\<rparr>"

definition old_linker :: toolchain where
  "old_linker =
     \<lparr>mkstemp = (\<lambda>fs. Inr (str ''/tmp/tmpq3x'')),
      run_linker = (\<lambda>cmd. Inr \<lparr>returncode = 1, stdout = ''ld: unrecognized option'',
                                 output_left = False\<rparr>),
      base_build_extension = (\<lambda>ext c. None)\<rparr>"

definition no_linker :: toolchain where
  "no_linker =
     \<lparr>mkstemp = (\<lambda>fs. Inr (str ''/tmp/tmpq3x'')),
      run_linker = (\<lambda>cmd. Inl OSError),
      base_build_extension = (\<lambda>ext c. None)\<rparr>"

definition core_ext :: extension where
  "core_ext =
     \<lparr>ext_name = str ''bob.core._core'', ext_sources = [], ext_language = str ''c++'',
      ext_include_dirs = [], ext_library_dirs = [], ext_runtime_library_dirs = [],
      ext_libraries = [str ''bob_core'']\<rparr>"

text \<open>Three builds by one command object.\<close>

definition three_builds :: "build_ext \<times> world" where
  "three_builds =
     build_extensions gnu_toolchain [core_ext, core_ext, core_ext] (new_build_ext gcc) empty_world"

text \<open>
  Two command objects in one process, each building once; and one command object that
  builds again after its probe raised.
\<close>

definition first_command :: "error option \<times> build_ext \<times> world" where
  "first_command = build_extension gnu_toolchain core_ext (new_build_ext gcc) empty_world"

definition second_command :: "error option \<times> build_ext \<times> world" where
  "second_command =
     build_extension gnu_toolchain core_ext (new_build_ext gcc) (snd (snd first_command))"

definition failed_probe :: "error option \<times> build_ext \<times> world" where
  "failed_probe = build_extension no_linker core_ext (new_build_ext gcc) empty_world"

definition probe_again :: "error option \<times> build_ext \<times> world" where
  "probe_again =
     build_extension no_linker core_ext (fst (snd failed_probe)) (snd (snd failed_probe))"

text \<open>The classes and the module scope of \<^verbatim>\<open>filters.py\<close>, and a class derived from \<^verbatim>\<open>Crop\<close>.\<close>

definition object_cls :: cls where
  "object_cls = Cls ''object'' []"

definition Filter_cls :: cls where
  "Filter_cls = Cls ''Filter'' [object_cls]"

definition Crop_cls :: cls where
  "Crop_cls = Cls ''Crop'' [Filter_cls]"

definition Scale_cls :: cls where
  "Scale_cls = Cls ''Scale'' [Crop_cls]"

definition filters_module :: "(string \<times> pyval) list" where
  "filters_module =
     [(''__name__'', PyOther ''str''), (''__doc__'', PyOther ''str''),
      (''torch'', PyOther ''module''), (''Filter'', PyType Filter_cls),
      (''Crop'', PyType Crop_cls), (''FILTERS'', PyOther ''list'')]"

section \<open>Properties of the flag classifier\<close>

lemma uniq_loop_dedup_first:
  "uniq_loop seen result seq = result @ dedup_first (filter (\<lambda>x. seen x = None) seq)"
proof (induction seq arbitrary: seen result)
  case Nil
  then show ?case by simp
next
  case (Cons item seq)
  show ?case
  proof (cases "seen item")
    case None
    have f: "filter (\<lambda>x. (seen(item \<mapsto> 1)) x = None) seq
             = filter (\<lambda>y. y \<noteq> item) (filter (\<lambda>x. seen x = None) seq)"
      unfolding filter_filter by (rule filter_cong) auto
    have "uniq_loop (seen(item \<mapsto> 1)) (result @ [item]) seq
          = result @ item # dedup_first (filter (\<lambda>y. y \<noteq> item) (filter (\<lambda>x. seen x = None) seq))"
      unfolding Cons.IH f by simp
    then show ?thesis using None by simp
  next
    case (Some n)
    then show ?thesis by (simp add: Cons.IH)
  qed
qed

lemma uniq_dedup_first: "uniq seq = dedup_first seq"
  by (simp add: uniq_def uniq_loop_dedup_first)

lemma set_dedup_first: "set (dedup_first xs) = set xs"
  by (induction xs rule: dedup_first.induct) auto

lemma distinct_dedup_first: "distinct (dedup_first xs)"
  by (induction xs rule: dedup_first.induct) (auto simp: set_dedup_first)

lemma dedup_first_Nil_iff: "dedup_first xs = [] \<longleftrightarrow> xs = []"
  by (cases xs) auto

lemma token_loop_lookup:
  "token_loop kw tokens k =
     (let vs = map payload (filter (\<lambda>t. target t = k) tokens)
      in if vs = [] then kw k else Some ((case kw k of None \<Rightarrow> [] | Some ws \<Rightarrow> ws) @ vs))"
proof (induction tokens arbitrary: kw)
  case Nil
  then show ?case by simp
next
  case (Cons token rest)
  show ?case
    by (cases "flag_map (take 2 token)")
       (auto simp: Cons.IH target_def payload_def setdefault_append_def Let_def)
qed

lemma flag_map_cases:
  "flag_map p = (if p = str ''-l'' then Some ''libraries''
                 else if p = str ''-L'' then Some ''library_dirs''
                 else if p = str ''-I'' then Some ''include_dirs'' else None)"
  by (simp add: flag_map_def)

lemma classify_lookup:
  "classify tokens k = bucket (dedup_first (map payload (filter (\<lambda>t. target t = k) tokens)))"
  by (simp add: classify_def uniq_items_def token_loop_lookup bucket_def Let_def
      uniq_dedup_first dedup_first_Nil_iff)

lemma select_include_dirs:
  "map payload (filter (\<lambda>t. target t = ''include_dirs'') tokens)
   = map (drop 2) (filter (\<lambda>t. take 2 t = str ''-I'') tokens)"
  by (induction tokens) (auto simp: target_def payload_def flag_map_cases)

lemma select_library_dirs:
  "map payload (filter (\<lambda>t. target t = ''library_dirs'') tokens)
   = map (drop 2) (filter (\<lambda>t. take 2 t = str ''-L'') tokens)"
  by (induction tokens) (auto simp: target_def payload_def flag_map_cases)

lemma select_libraries:
  "map payload (filter (\<lambda>t. target t = ''libraries'') tokens)
   = map (drop 2) (filter (\<lambda>t. take 2 t = str ''-l'') tokens)"
  by (induction tokens) (auto simp: target_def payload_def flag_map_cases)

lemma select_extra_compile_args:
  "map payload (filter (\<lambda>t. target t = ''extra_compile_args'') tokens)
   = filter (\<lambda>t. take 2 t \<notin> {str ''-I'', str ''-L'', str ''-l''}) tokens"
  by (induction tokens) (auto simp: target_def payload_def flag_map_cases)

lemma select_other:
  "k \<notin> {''include_dirs'', ''library_dirs'', ''libraries'', ''extra_compile_args''}
   \<Longrightarrow> filter (\<lambda>t. target t = k) tokens = []"
  by (induction tokens) (auto simp: target_def flag_map_cases)

text \<open>
  Claim C1. Whatever the tokens, the classifier puts the rest of every token that starts
  with \<^verbatim>\<open>-I\<close>, \<^verbatim>\<open>-L\<close> or \<^verbatim>\<open>-l\<close> into \<^verbatim>\<open>include_dirs\<close>, \<^verbatim>\<open>library_dirs\<close> or
  \<^verbatim>\<open>libraries\<close>, and every other token, unchanged, into \<^verbatim>\<open>extra_compile_args\<close>; each
  bucket is then the list of these values with duplicates removed and first occurrences
  kept in place, so it has no duplicate; no other key is bound. The tokens
  \<^verbatim>\<open>-Ia -Ib -Ia\<close> give the include directories \<^verbatim>\<open>a\<close>, \<^verbatim>\<open>b\<close>. When pkg-config
  exits with status zero, \<^verbatim>\<open>pkgconfig\<close> returns this classification of the
  whitespace-separated tokens of its decoded output.
\<close>

theorem classify_buckets:
  "classify tokens ''include_dirs''
     = bucket (dedup_first (map (drop 2) (filter (\<lambda>t. take 2 t = str ''-I'') tokens)))
   \<and> classify tokens ''library_dirs''
     = bucket (dedup_first (map (drop 2) (filter (\<lambda>t. take 2 t = str ''-L'') tokens)))
   \<and> classify tokens ''libraries''
     = bucket (dedup_first (map (drop 2) (filter (\<lambda>t. take 2 t = str ''-l'') tokens)))
   \<and> classify tokens ''extra_compile_args''
     = bucket (dedup_first
         (filter (\<lambda>t. take 2 t \<notin> {str ''-I'', str ''-L'', str ''-l''}) tokens))
   \<and> (\<forall>k. k \<notin> {''include_dirs'', ''library_dirs'', ''libraries'', ''extra_compile_args''}
          \<longrightarrow> classify tokens k = None)
   \<and> (\<forall>k vs. classify tokens k = Some vs \<longrightarrow> distinct vs)
   \<and> (\<forall>vs :: pystr list. distinct (dedup_first vs) \<and> set (dedup_first vs) = set vs)
   \<and> classify [str ''-Ia'', str ''-Ib'', str ''-Ia''] ''include_dirs''
     = Some [str ''a'', str ''b'']
   \<and> (\<forall>p output.
         popen e [str ''pkg-config'', str ''--libs'', str ''--cflags'', package] = Inr p
       \<and> returncode p = 0 \<and> decode_utf8 (stdout p) = Inr output
       \<longrightarrow> pkgconfig e package = Inr (classify (split output)))"
proof -
  have query: "\<forall>p output.
         popen e [str ''pkg-config'', str ''--libs'', str ''--cflags'', package] = Inr p
       \<and> returncode p = 0 \<and> decode_utf8 (stdout p) = Inr output
       \<longrightarrow> pkgconfig e package = Inr (classify (split output))"
    by (simp add: pkgconfig_def)
  have other: "\<forall>k. k \<notin> {''include_dirs'', ''library_dirs'', ''libraries'', ''extra_compile_args''}
          \<longrightarrow> classify tokens k = None"
    using select_other [of _ tokens] by (simp add: classify_lookup bucket_def)
  have example: "classify [str ''-Ia'', str ''-Ib'', str ''-Ia''] ''include_dirs''
                 = Some [str ''a'', str ''b'']"
    by (simp add: classify_lookup bucket_def target_def payload_def flag_map_cases)
  have buckets:
    "classify tokens ''include_dirs''
       = bucket (dedup_first (map (drop 2) (filter (\<lambda>t. take 2 t = str ''-I'') tokens)))"
    "classify tokens ''library_dirs''
       = bucket (dedup_first (map (drop 2) (filter (\<lambda>t. take 2 t = str ''-L'') tokens)))"
    "classify tokens ''libraries''
       = bucket (dedup_first (map (drop 2) (filter (\<lambda>t. take 2 t = str ''-l'') tokens)))"
    "classify tokens ''extra_compile_args''
       = bucket (dedup_first
           (filter (\<lambda>t. take 2 t \<notin> {str ''-I'', str ''-L'', str ''-l''}) tokens))"
    by (simp_all only: classify_lookup select_include_dirs select_library_dirs select_libraries
        select_extra_compile_args)
  have nodup: "\<forall>k vs. classify tokens k = Some vs \<longrightarrow> distinct vs"
    by (auto simp: classify_lookup bucket_def distinct_dedup_first split: if_splits)
  have dedup: "\<forall>vs :: pystr list. distinct (dedup_first vs) \<and> set (dedup_first vs) = set vs"
    by (simp add: distinct_dedup_first set_dedup_first)
  show ?thesis
    using buckets other nodup dedup example query by (intro conjI)
qed

theorem classify_buckets_witness:
  "classify [str ''-Ia'', str ''-L/x'', str ''-lm'', str ''-O2'', str ''-Ia'', str ''-l'', str ''-O2'']
      ''include_dirs'' = Some [str ''a'']
   \<and> classify [str ''-Ia'', str ''-L/x'', str ''-lm'', str ''-O2'', str ''-Ia'', str ''-l'', str ''-O2'']
      ''library_dirs'' = Some [str ''/x'']
   \<and> classify [str ''-Ia'', str ''-L/x'', str ''-lm'', str ''-O2'', str ''-Ia'', str ''-l'', str ''-O2'']
      ''libraries'' = Some [str ''m'', []]
   \<and> classify [str ''-Ia'', str ''-L/x'', str ''-lm'', str ''-O2'', str ''-Ia'', str ''-l'', str ''-O2'']
      ''extra_compile_args'' = Some [str ''-O2'']
   \<and> classify [str ''-Ia'', str ''-L/x'', str ''-lm'', str ''-O2'', str ''-Ia'', str ''-l'', str ''-O2'']
      ''sources'' = None
   \<and> pkgconfig staged_env (str ''bob-core-py38'')
     = Inr (classify [str ''-I/usr/local/include'', str ''-L/usr/local/lib'', str ''-lbob_core''])"
proof -
  let ?tokens = "[str ''-Ia'', str ''-L/x'', str ''-lm'', str ''-O2'', str ''-Ia'', str ''-l'', str ''-O2'']"
  let ?p = "\<lparr>returncode = 0,
             stdout = ''-I/usr/local/include -L/usr/local/lib -lbob_core'' @ [CHR 0x0A]\<rparr>"
  note c = classify_buckets [of ?tokens staged_env "str ''bob-core-py38''"]
  have i: "classify ?tokens ''include_dirs''
             = bucket (dedup_first (map (drop 2) (filter (\<lambda>t. take 2 t = str ''-I'') ?tokens)))"
    by (rule c [THEN conjunct1])
  have L: "classify ?tokens ''library_dirs''
             = bucket (dedup_first (map (drop 2) (filter (\<lambda>t. take 2 t = str ''-L'') ?tokens)))"
    by (rule c [THEN conjunct2, THEN conjunct1])
  have l: "classify ?tokens ''libraries''
             = bucket (dedup_first (map (drop 2) (filter (\<lambda>t. take 2 t = str ''-l'') ?tokens)))"
    by (rule c [THEN conjunct2, THEN conjunct2, THEN conjunct1])
  have x: "classify ?tokens ''extra_compile_args''
             = bucket (dedup_first
                 (filter (\<lambda>t. take 2 t \<notin> {str ''-I'', str ''-L'', str ''-l''}) ?tokens))"
    by (rule c [THEN conjunct2, THEN conjunct2, THEN conjunct2, THEN conjunct1])
  have o: "\<forall>k. k \<notin> {''include_dirs'', ''library_dirs'', ''libraries'', ''extra_compile_args''}
             \<longrightarrow> classify ?tokens k = None"
    by (rule c [THEN conjunct2, THEN conjunct2, THEN conjunct2, THEN conjunct2, THEN conjunct1])
  have q: "\<forall>p output.
         popen staged_env [str ''pkg-config'', str ''--libs'', str ''--cflags'', str ''bob-core-py38'']
           = Inr p
       \<and> returncode p = 0 \<and> decode_utf8 (stdout p) = Inr output
       \<longrightarrow> pkgconfig staged_env (str ''bob-core-py38'') = Inr (classify (split output))"
    by (rule c [THEN conjunct2, THEN conjunct2, THEN conjunct2, THEN conjunct2, THEN conjunct2,
          THEN conjunct2, THEN conjunct2, THEN conjunct2])
  have run: "popen staged_env [str ''pkg-config'', str ''--libs'', str ''--cflags'', str ''bob-core-py38'']
               = Inr ?p"
    by (simp add: staged_env_def posix_env_def exits_def)
  have rc: "returncode ?p = 0"
    by simp
  have decoded: "decode_utf8 (stdout ?p)
               = Inr (str ''-I/usr/local/include -L/usr/local/lib -lbob_core'' @ [10])"
    by (simp add: decode_utf8_def)
  have tokens: "split (str ''-I/usr/local/include -L/usr/local/lib -lbob_core'' @ [10])
               = [str ''-I/usr/local/include'', str ''-L/usr/local/lib'', str ''-lbob_core'']"
    by (simp add: split_def str_isspace_def)
  have query: "pkgconfig staged_env (str ''bob-core-py38'')
     = Inr (classify [str ''-I/usr/local/include'', str ''-L/usr/local/lib'', str ''-lbob_core''])"
    using q run rc decoded unfolding tokens [symmetric] by blast
  have other: "classify ?tokens ''sources'' = None"
    using o by simp
  show ?thesis
    unfolding i L l x other query by (simp add: bucket_def)
qed

section \<open>Properties of the pkg-config queries\<close>

text \<open>
  Claim C2, as the code has it. When pkg-config exits with a non-zero status, \<^verbatim>\<open>pkgconfig\<close>
  returns the empty dictionary, in which none of the four buckets is bound, provided the
  captured output is valid UTF-8; the output is decoded before the exit status is looked
  at, so output that is not valid UTF-8 raises \<^verbatim>\<open>UnicodeDecodeError\<close>. The result is
  never \<^verbatim>\<open>None\<close>.
\<close>

theorem pkgconfig_nonzero_exit:
  assumes "popen e [str ''pkg-config'', str ''--libs'', str ''--cflags'', package] = Inr p"
    and "returncode p \<noteq> 0"
  shows "(\<forall>output. decode_utf8 (stdout p) = Inr output \<longrightarrow> pkgconfig e package = Inr Map.empty)
       \<and> (decode_utf8 (stdout p) = Inl UnicodeDecodeError
            \<longrightarrow> pkgconfig e package = Inl UnicodeDecodeError)
       \<and> (\<forall>kw k. pkgconfig e package = Inr kw \<longrightarrow> kw k = None)"
  using assms by (auto simp: pkgconfig_def split: sum.splits)

theorem pkgconfig_nonzero_exit_witness:
  "pkgconfig (posix_env (exits 1 ''No package found'') []) (str ''bob-visioner'') = Inr Map.empty"
  using pkgconfig_nonzero_exit
    [of "posix_env (exits 1 ''No package found'') []" "str ''bob-visioner''"
      "\<lparr>returncode = 1, stdout = ''No package found''\<rparr>"]
  by (simp add: posix_env_def exits_def decode_utf8_def)

text \<open>
  The claim as written fails: after a non-zero exit with plain output the returned
  dictionary has no key at all, so no bucket is present; and with output that is not
  UTF-8 the call raises.
\<close>

theorem pkgconfig_nonzero_exit_counterexample:
  "map_sum id dom (pkgconfig (posix_env (exits 1 ''No package found'') []) (str ''bob-visioner''))
     = Inr {}
   \<and> pkgconfig (posix_env (exits 1 [CHR 0xFF]) []) (str ''bob-visioner'')
     = Inl UnicodeDecodeError"
  by (simp add: pkgconfig_def posix_env_def exits_def decode_utf8_def)

text \<open>
  Claim C7, as the code has it. If the \<^verbatim>\<open>--modversion\<close> query exits with a non-zero
  status, or cannot be run, \<^verbatim>\<open>bob_variables\<close> raises and returns no record: a
  \<^verbatim>\<open>RuntimeError\<close> carrying the output when that decodes. Every record returned holds as
  version a string, never \<^verbatim>\<open>None\<close>: the stripped, decoded output of a \<^verbatim>\<open>--modversion\<close>
  query that exited with status zero. Nothing makes that string non-empty.
\<close>

theorem bob_variables_version:
  "(\<forall>p. popen e [str ''pkg-config'', str ''--modversion'', str ''bob''] = Inr p
        \<and> returncode p \<noteq> 0
        \<longrightarrow> (\<exists>err. bob_variables e = Inl err))
   \<and> (\<forall>p output. popen e [str ''pkg-config'', str ''--modversion'', str ''bob''] = Inr p
        \<and> returncode p \<noteq> 0 \<and> decode_utf8 (bytes_strip (stdout p)) = Inr output
        \<longrightarrow> bob_variables e = Inl (RuntimeError
               (str ''Cannot retrieve Bob version from pkg-config:'' @ [10] @ output)))
   \<and> (\<forall>err. popen e [str ''pkg-config'', str ''--modversion'', str ''bob''] = Inl err
        \<longrightarrow> bob_variables e = Inl err)
   \<and> (\<forall>BOB. bob_variables e = Inr BOB
        \<longrightarrow> (\<exists>p v. popen e [str ''pkg-config'', str ''--modversion'', str ''bob''] = Inr p
               \<and> returncode p = 0 \<and> decode_utf8 (bytes_strip (stdout p)) = Inr v
               \<and> version BOB = Some v))"
  by (auto simp: bob_variables_def Let_def split: sum.splits if_splits)

theorem bob_variables_version_witness:
  "bob_variables (posix_env (exits 1 ''No package found'') [])
     = Inl (RuntimeError (str ''Cannot retrieve Bob version from pkg-config:'' @ [10]
                          @ str ''No package found''))
   \<and> map_sum id version (bob_variables (posix_env (exits 0 (''1.2.0'' @ [CHR 0x0A])) []))
     = Inr (Some (str ''1.2.0''))"
  using bob_variables_version [of "posix_env (exits 1 ''No package found'') []"]
    bob_variables_version [of "posix_env (exits 0 (''1.2.0'' @ [CHR 0x0A])) []"]
  by (simp add: bob_variables_def get_var_def posix_env_def exits_def decode_utf8_def
      bytes_strip_def bytes_isspace_def Let_def)

text \<open>
  The claim as written fails in its second half: a pkg-config that exits with status zero
  and prints only a newline gives a record whose version is the empty string.
\<close>

theorem bob_variables_version_counterexample:
  "bob_variables (posix_env (exits 0 [CHR 0x0A]) [])
   = Inr \<lparr>version = Some [], base_libdir = Some [], base_includedir = Some []\<rparr>"
  by (simp add: bob_variables_def get_var_def posix_env_def exits_def decode_utf8_def
      bytes_strip_def bytes_isspace_def Let_def)

section \<open>Properties of the extension descriptor\<close>

lemma caged_failure_propagates:
  assumes "\<And>library_dirs include_dirs. caged_dirs e BOB library_dirs include_dirs = Inl err"
  shows "\<exists>err'. setup_extension e BOB name pc_file = Inl err'"
proof (cases "numpy_get_include e")
  case None
  then show ?thesis by (simp add: setup_extension_def)
next
  case (Some numpy_include)
  show ?thesis
  proof (cases "pkgconfig e (package_name e pc_file)")
    case (Inl a)
    then show ?thesis using Some by (simp add: setup_extension_def)
  next
    case (Inr pc)
    then show ?thesis using Some assms by (simp add: setup_extension_def)
  qed
qed

text \<open>
  Claim C10, as the code has it. If the version query succeeds and the queries for
  \<^verbatim>\<open>libdir\<close> and \<^verbatim>\<open>includedir\<close> run and print valid UTF-8, one of them at least exiting
  with a non-zero status, then \<^verbatim>\<open>bob_variables\<close> returns its record without error, with
  \<^verbatim>\<open>None\<close> for every directory whose query failed; every later caged build
  (\<^verbatim>\<open>DESTDIR\<close> not empty) with that record fails, and where it reaches the join of the
  caging root with the directory it raises \<^verbatim>\<open>AttributeError\<close> on \<^verbatim>\<open>None\<close>.
\<close>

theorem bob_variables_missing_dirs:
  assumes "popen e [str ''pkg-config'', str ''--modversion'', str ''bob''] = Inr pv"
    and "returncode pv = 0"
    and "decode_utf8 (bytes_strip (stdout pv)) = Inr v"
    and "popen e [str ''pkg-config'', str ''--variable='' @ str ''libdir'', str ''bob''] = Inr pl"
    and "decode_utf8 (bytes_strip (stdout pl)) = Inr l"
    and "popen e [str ''pkg-config'', str ''--variable='' @ str ''includedir'', str ''bob'']
         = Inr pi"
    and "decode_utf8 (bytes_strip (stdout pi)) = Inr i"
    and "returncode pl \<noteq> 0 \<or> returncode pi \<noteq> 0"
  shows "\<exists>BOB. bob_variables e = Inr BOB
           \<and> version BOB = Some v
           \<and> base_libdir BOB = (if returncode pl \<noteq> 0 then None else Some l)
           \<and> base_includedir BOB = (if returncode pi \<noteq> 0 then None else Some i)
           \<and> (\<forall>e' library_dirs include_dirs. DESTDIR e' \<noteq> [] \<longrightarrow>
                 caged_dirs e' BOB library_dirs include_dirs
                 = Inl (AttributeError (if returncode pl \<noteq> 0 then ''lstrip'' else ''strip'')))
           \<and> (\<forall>e' name pc_file. DESTDIR e' \<noteq> [] \<longrightarrow>
                 (\<exists>err. setup_extension e' BOB name pc_file = Inl err))"
proof -
  let ?BOB = "\<lparr>version = Some v,
               base_libdir = (if returncode pl \<noteq> 0 then None else Some l),
               base_includedir = (if returncode pi \<noteq> 0 then None else Some i)\<rparr>"
  have b: "bob_variables e = Inr ?BOB"
    using assms(1-7) by (simp add: bob_variables_def get_var_def Let_def)
  have c: "caged_dirs e' ?BOB library_dirs include_dirs
           = Inl (AttributeError (if returncode pl \<noteq> 0 then ''lstrip'' else ''strip''))"
    if "DESTDIR e' \<noteq> []" for e' library_dirs include_dirs
    using that assms(8) by (simp add: caged_dirs_def)
  have s: "\<exists>err. setup_extension e' ?BOB name pc_file = Inl err"
    if "DESTDIR e' \<noteq> []" for e' name pc_file
    using c [OF that] by (rule caged_failure_propagates)
  show ?thesis
    using b c s by (intro exI [of _ ?BOB]) simp
qed

theorem bob_variables_missing_dirs_witness:
  "bob_variables (posix_env (bob_found_dirs_missing ''No package found'') (str ''/stage''))
   = Inr \<lparr>version = Some (str ''1.2.0''), base_libdir = None, base_includedir = None\<rparr>
   \<and> setup_extension (posix_env (bob_found_dirs_missing ''No package found'') (str ''/stage''))
        \<lparr>version = Some (str ''1.2.0''), base_libdir = None, base_includedir = None\<rparr>
        (str ''bob.core._core'') (str ''bob-core-py'')
      = Inl (AttributeError ''lstrip'')"
  using bob_variables_missing_dirs
    [of "posix_env (bob_found_dirs_missing ''No package found'') (str ''/stage'')"
      "\<lparr>returncode = 0, stdout = ''1.2.0'' @ [CHR 0x0A]\<rparr>" "str ''1.2.0''"
      "\<lparr>returncode = 1, stdout = ''No package found''\<rparr>" "str ''No package found''"
      "\<lparr>returncode = 1, stdout = ''No package found''\<rparr>" "str ''No package found''"]
  by (simp add: bob_variables_def get_var_def posix_env_def bob_found_dirs_missing_def
      decode_utf8_def bytes_strip_def bytes_isspace_def Let_def setup_extension_def
      pkgconfig_def caged_dirs_def)

text \<open>
  The claim as written fails where a failing directory query prints bytes that are not
  UTF-8: the output is decoded before the exit status is looked at, and
  \<^verbatim>\<open>bob_variables\<close> raises instead of returning a record.
\<close>

theorem bob_variables_missing_dirs_counterexample:
  "bob_variables (posix_env (bob_found_dirs_missing [CHR 0xFF]) (str ''/stage''))
   = Inl UnicodeDecodeError"
  by (simp add: bob_variables_def get_var_def posix_env_def bob_found_dirs_missing_def
      decode_utf8_def bytes_strip_def bytes_isspace_def Let_def)

lemma pkgconfig_bucket_nonempty:
  assumes "pkgconfig e package = Inr pc"
  shows "pc k \<noteq> Some []"
  using assms
  by (auto simp: pkgconfig_def classify_lookup bucket_def split: sum.splits if_splits)

lemma pkgconfig_libraries_None:
  assumes "popen e [str ''pkg-config'', str ''--libs'', str ''--cflags'', package] = Inr p"
    and "decode_utf8 (stdout p) = Inr output"
    and "pkgconfig e package = Inr pc"
  shows "pc ''libraries'' = None
         \<longleftrightarrow> returncode p \<noteq> 0 \<or> filter (\<lambda>t. take 2 t = str ''-l'') (split output) = []"
  using assms
  by (auto simp: pkgconfig_def classify_lookup select_libraries bucket_def dedup_first_Nil_iff
      split: if_splits)

lemma prefix_sep_dropWhile: "\<not> prefix os_sep (dropWhile (\<lambda>c. c \<in> set os_sep) s)"
proof
  assume "prefix os_sep (dropWhile (\<lambda>c. c \<in> set os_sep) s)"
  then obtain r where r: "dropWhile (\<lambda>c. c \<in> set os_sep) s = 47 # r"
    by (auto simp: os_sep_def prefix_def)
  then have "\<not> (47 \<in> set os_sep)"
    using hd_dropWhile [of "\<lambda>c. c \<in> set os_sep" s] by simp
  then show False by (simp add: os_sep_def)
qed

lemma lstrip_no_sep: "\<not> prefix os_sep (lstrip s os_sep)"
  by (simp add: lstrip_def prefix_sep_dropWhile)

lemma rstrip_prefix: "prefix (rstrip s chars) s"
proof -
  have "rev s = takeWhile (\<lambda>c. c \<in> set chars) (rev s) @ dropWhile (\<lambda>c. c \<in> set chars) (rev s)"
    by simp
  then have "rev (rev s)
             = rev (takeWhile (\<lambda>c. c \<in> set chars) (rev s) @ dropWhile (\<lambda>c. c \<in> set chars) (rev s))"
    by (rule arg_cong)
  then have "s = rstrip s chars @ rev (takeWhile (\<lambda>c. c \<in> set chars) (rev s))"
    by (simp add: rstrip_def del: takeWhile_dropWhile_id)
  then show ?thesis by (rule prefixI)
qed

lemma strip_no_sep: "\<not> prefix os_sep (strip s os_sep)"
proof
  assume a: "prefix os_sep (strip s os_sep)"
  have "prefix (strip s os_sep) (lstrip s os_sep)"
    by (simp add: strip_def rstrip_prefix)
  with a have "prefix os_sep (lstrip s os_sep)"
    by (rule prefix_order.trans)
  then show False by (simp add: lstrip_no_sep)
qed

lemma os_path_join_relative: "\<not> prefix os_sep b \<Longrightarrow> prefix a (os_path_join a b)"
  by (simp add: os_path_join_def)

lemma caged_descriptor_iff:
  assumes "DESTDIR e \<noteq> []"
  shows "setup_extension e BOB name pc_file = Inr d \<longleftrightarrow>
     (\<exists>numpy_include pc libdir includedir libs.
        numpy_get_include e = Some numpy_include
      \<and> pkgconfig e (package_name e pc_file) = Inr pc
      \<and> base_libdir BOB = Some libdir
      \<and> base_includedir BOB = Some includedir
      \<and> pc ''libraries'' = Some libs
      \<and> d = \<lparr>ext_name = name,
              ext_sources = (if str_find (platform_system e) (str ''CYGWIN'') \<noteq> - 1
                             then [str ''empty.c''] else []),
              ext_language = str ''c++'',
              ext_include_dirs =
                os_path_join (DESTDIR e) (strip includedir os_sep)
                # filter (path_exists e) (dict_get pc ''include_dirs'') @ [numpy_include],
              ext_library_dirs =
                os_path_join (DESTDIR e) (lstrip libdir os_sep)
                # filter (path_exists e) (dict_get pc ''library_dirs''),
              ext_runtime_library_dirs =
                os_path_join (DESTDIR e) (lstrip libdir os_sep)
                # filter (path_exists e) (dict_get pc ''library_dirs''),
              ext_libraries = libs\<rparr>)"
  using assms
  by (auto simp: setup_extension_def caged_dirs_def Let_def split: option.splits sum.splits)

lemma staged_pkgconfig:
  "pkgconfig staged_env (package_name staged_env (str ''bob-core-py''))
   = Inr (classify [str ''-I/usr/local/include'', str ''-L/usr/local/lib'', str ''-lbob_core''])"
  by (simp add: pkgconfig_def staged_env_def posix_env_def exits_def decode_utf8_def
      split_def str_isspace_def)

lemma staged_setup_extension:
  "setup_extension staged_env bob_installed (str ''bob.core._core'') (str ''bob-core-py'')
   = Inr \<lparr>ext_name = str ''bob.core._core'', ext_sources = [], ext_language = str ''c++'',
          ext_include_dirs =
            [str ''/stage/usr/include'', str ''/usr/local/include'', str ''/numpy/include''],
          ext_library_dirs = [str ''/stage/usr/lib'', str ''/usr/local/lib''],
          ext_runtime_library_dirs = [str ''/stage/usr/lib'', str ''/usr/local/lib''],
          ext_libraries = [str ''bob_core'']\<rparr>"
  unfolding setup_extension_def staged_pkgconfig
  by (simp add: staged_env_def posix_env_def bob_installed_def caged_dirs_def dict_get_def
      classify_lookup target_def payload_def flag_map_cases bucket_def
      os_path_join_def lstrip_def strip_def rstrip_def os_sep_def suffix_to_prefix)

text \<open>
  Claim C5. In a caged build (\<^verbatim>\<open>DESTDIR\<close> not empty), every descriptor that
  \<^verbatim>\<open>setup_extension\<close> returns has as library directories the join of \<^verbatim>\<open>DESTDIR\<close> with
  the toolbox's library directory, leading separators stripped, followed by the library
  directories pkg-config reported that exist; its include directories start with the
  join of \<^verbatim>\<open>DESTDIR\<close> with the toolbox's include directory, leading and trailing separators
  stripped, followed by the reported include directories that exist (and numpy's at the
  end). Both joined paths begin with \<^verbatim>\<open>DESTDIR\<close>. A descriptor is returned whenever numpy
  is there, both base directories are known and pkg-config reported a library.
\<close>

theorem setup_extension_caged:
  assumes "DESTDIR e \<noteq> []"
  shows "(\<forall>d. setup_extension e BOB name pc_file = Inr d \<longrightarrow>
            (\<exists>numpy_include pc libdir includedir.
               numpy_get_include e = Some numpy_include
             \<and> pkgconfig e (package_name e pc_file) = Inr pc
             \<and> base_libdir BOB = Some libdir
             \<and> base_includedir BOB = Some includedir
             \<and> ext_library_dirs d =
                 os_path_join (DESTDIR e) (lstrip libdir os_sep)
                 # filter (path_exists e) (dict_get pc ''library_dirs'')
             \<and> ext_runtime_library_dirs d = ext_library_dirs d
             \<and> ext_include_dirs d =
                 os_path_join (DESTDIR e) (strip includedir os_sep)
                 # filter (path_exists e) (dict_get pc ''include_dirs'') @ [numpy_include]
             \<and> prefix (DESTDIR e) (os_path_join (DESTDIR e) (lstrip libdir os_sep))
             \<and> prefix (DESTDIR e) (os_path_join (DESTDIR e) (strip includedir os_sep))))
       \<and> (\<forall>numpy_include pc libdir includedir libs.
            numpy_get_include e = Some numpy_include
          \<and> pkgconfig e (package_name e pc_file) = Inr pc
          \<and> base_libdir BOB = Some libdir
          \<and> base_includedir BOB = Some includedir
          \<and> pc ''libraries'' = Some libs
          \<longrightarrow> (\<exists>d. setup_extension e BOB name pc_file = Inr d))"
proof (intro conjI allI impI)
  fix d
  assume "setup_extension e BOB name pc_file = Inr d"
  then obtain numpy_include pc libdir includedir libs where
    h: "numpy_get_include e = Some numpy_include"
       "pkgconfig e (package_name e pc_file) = Inr pc"
       "base_libdir BOB = Some libdir" "base_includedir BOB = Some includedir"
    and d: "ext_library_dirs d =
              os_path_join (DESTDIR e) (lstrip libdir os_sep)
              # filter (path_exists e) (dict_get pc ''library_dirs'')"
       "ext_runtime_library_dirs d = ext_library_dirs d"
       "ext_include_dirs d =
              os_path_join (DESTDIR e) (strip includedir os_sep)
              # filter (path_exists e) (dict_get pc ''include_dirs'') @ [numpy_include]"
    unfolding caged_descriptor_iff [OF assms] by force
  have p: "prefix (DESTDIR e) (os_path_join (DESTDIR e) (lstrip libdir os_sep))"
    "prefix (DESTDIR e) (os_path_join (DESTDIR e) (strip includedir os_sep))"
    by (simp_all add: os_path_join_relative lstrip_no_sep strip_no_sep)
  show "\<exists>numpy_include pc libdir includedir.
               numpy_get_include e = Some numpy_include
             \<and> pkgconfig e (package_name e pc_file) = Inr pc
             \<and> base_libdir BOB = Some libdir
             \<and> base_includedir BOB = Some includedir
             \<and> ext_library_dirs d =
                 os_path_join (DESTDIR e) (lstrip libdir os_sep)
                 # filter (path_exists e) (dict_get pc ''library_dirs'')
             \<and> ext_runtime_library_dirs d = ext_library_dirs d
             \<and> ext_include_dirs d =
                 os_path_join (DESTDIR e) (strip includedir os_sep)
                 # filter (path_exists e) (dict_get pc ''include_dirs'') @ [numpy_include]
             \<and> prefix (DESTDIR e) (os_path_join (DESTDIR e) (lstrip libdir os_sep))
             \<and> prefix (DESTDIR e) (os_path_join (DESTDIR e) (strip includedir os_sep))"
    using h d p by blast
next
  fix numpy_include pc libdir includedir libs
  assume "numpy_get_include e = Some numpy_include
          \<and> pkgconfig e (package_name e pc_file) = Inr pc
          \<and> base_libdir BOB = Some libdir
          \<and> base_includedir BOB = Some includedir
          \<and> pc ''libraries'' = Some libs"
  then show "\<exists>d. setup_extension e BOB name pc_file = Inr d"
    unfolding caged_descriptor_iff [OF assms] by blast
qed

text \<open>
  The example of the specification: caging root \<^verbatim>\<open>/stage\<close>, base library directory
  \<^verbatim>\<open>/usr/lib\<close>, discovered \<^verbatim>\<open>/usr/local/lib\<close>.
\<close>

theorem setup_extension_caged_witness:
  "DESTDIR staged_env = str ''/stage''
   \<and> base_libdir bob_installed = Some (str ''/usr/lib'')
   \<and> map_sum id ext_library_dirs
        (setup_extension staged_env bob_installed (str ''bob.core._core'') (str ''bob-core-py''))
      = Inr [str ''/stage/usr/lib'', str ''/usr/local/lib'']
   \<and> map_sum id ext_include_dirs
        (setup_extension staged_env bob_installed (str ''bob.core._core'') (str ''bob-core-py''))
      = Inr [str ''/stage/usr/include'', str ''/usr/local/include'', str ''/numpy/include'']"
proof -
  have destdir: "DESTDIR staged_env = str ''/stage''"
    by (simp add: staged_env_def posix_env_def)
  have libdir: "base_libdir bob_installed = Some (str ''/usr/lib'')"
    by (simp add: bob_installed_def)
  have caged: "DESTDIR staged_env \<noteq> []"
    by (simp add: destdir)
  have libs: "map_sum id ext_library_dirs
        (setup_extension staged_env bob_installed (str ''bob.core._core'') (str ''bob-core-py''))
      = Inr [str ''/stage/usr/lib'', str ''/usr/local/lib'']"
    unfolding staged_setup_extension by simp
  have incs: "map_sum id ext_include_dirs
        (setup_extension staged_env bob_installed (str ''bob.core._core'') (str ''bob-core-py''))
      = Inr [str ''/stage/usr/include'', str ''/usr/local/include'', str ''/numpy/include'']"
    unfolding staged_setup_extension by simp
  show ?thesis
    using setup_extension_caged
      [OF caged, of bob_installed "str ''bob.core._core''" "str ''bob-core-py''"]
    by (simp only: libs incs destdir libdir simp_thms)
qed

text \<open>
  Claim C6, as the code has it. When the package query gives a dictionary without the
  \<^verbatim>\<open>libraries\<close> bucket, \<^verbatim>\<open>setup_extension\<close> fails, whatever the extension: with
  \<^verbatim>\<open>KeyError('libraries')\<close> once numpy is imported and the caged directories are built,
  with \<^verbatim>\<open>ImportError\<close> or \<^verbatim>\<open>AttributeError\<close> before. The error is the same for every
  extension name: it names the missing key, not the extension. No descriptor returned
  has an empty list of libraries. The bucket is missing exactly when pkg-config exited
  with a non-zero status or printed no token that starts with \<^verbatim>\<open>-l\<close>.
\<close>

theorem setup_extension_libraries:
  "(\<forall>pc. pkgconfig e (package_name e pc_file) = Inr pc \<and> pc ''libraries'' = None \<longrightarrow>
      (\<exists>err. (\<forall>name. setup_extension e BOB name pc_file = Inl err)
         \<and> err \<in> {ImportError, AttributeError ''lstrip'', AttributeError ''strip'',
                  KeyError ''libraries''}
         \<and> (numpy_get_include e \<noteq> None
              \<and> (DESTDIR e = [] \<or> base_libdir BOB \<noteq> None \<and> base_includedir BOB \<noteq> None)
            \<longrightarrow> err = KeyError ''libraries'')))
   \<and> (\<forall>name d. setup_extension e BOB name pc_file = Inr d \<longrightarrow> ext_libraries d \<noteq> [])
   \<and> (\<forall>p output pc.
         popen e [str ''pkg-config'', str ''--libs'', str ''--cflags'', package_name e pc_file]
           = Inr p
       \<and> decode_utf8 (stdout p) = Inr output
       \<and> pkgconfig e (package_name e pc_file) = Inr pc
       \<longrightarrow> (pc ''libraries'' = None
            \<longleftrightarrow> returncode p \<noteq> 0
                \<or> filter (\<lambda>t. take 2 t = str ''-l'') (split output) = []))"
proof (intro conjI allI impI)
  fix p out pc
  assume "popen e [str ''pkg-config'', str ''--libs'', str ''--cflags'', package_name e pc_file]
           = Inr p
       \<and> decode_utf8 (stdout p) = Inr out
       \<and> pkgconfig e (package_name e pc_file) = Inr pc"
  then show "pc ''libraries'' = None
            \<longleftrightarrow> returncode p \<noteq> 0
                \<or> filter (\<lambda>t. take 2 t = str ''-l'') (split out) = []"
    using pkgconfig_libraries_None by blast
next
  fix pc
  assume a: "pkgconfig e (package_name e pc_file) = Inr pc \<and> pc ''libraries'' = None"
  show "\<exists>err. (\<forall>name. setup_extension e BOB name pc_file = Inl err)
         \<and> err \<in> {ImportError, AttributeError ''lstrip'', AttributeError ''strip'',
                  KeyError ''libraries''}
         \<and> (numpy_get_include e \<noteq> None
              \<and> (DESTDIR e = [] \<or> base_libdir BOB \<noteq> None \<and> base_includedir BOB \<noteq> None)
            \<longrightarrow> err = KeyError ''libraries'')"
    using a
    by (cases "numpy_get_include e"; cases "base_libdir BOB"; cases "base_includedir BOB";
        cases "DESTDIR e = []")
       (simp_all add: setup_extension_def caged_dirs_def Let_def)
next
  fix name d
  assume a: "setup_extension e BOB name pc_file = Inr d"
  then obtain pc where pc: "pkgconfig e (package_name e pc_file) = Inr pc"
    and l: "pc ''libraries'' = Some (ext_libraries d)"
    by (auto simp: setup_extension_def Let_def split: option.splits sum.splits)
  show "ext_libraries d \<noteq> []"
    using pkgconfig_bucket_nonempty [OF pc, of "''libraries''"] l by auto
qed

theorem setup_extension_libraries_witness:
  "setup_extension (posix_env (exits 0 (''-I/usr/include -O2'' @ [CHR 0x0A])) [])
      bob_installed (str ''bob.core._core'') (str ''bob-core-py'')
     = Inl (KeyError ''libraries'')
   \<and> map_sum id ext_libraries
       (setup_extension staged_env bob_installed (str ''bob.core._core'') (str ''bob-core-py''))
     = Inr [str ''bob_core'']"
proof -
  have none: "setup_extension (posix_env (exits 0 (''-I/usr/include -O2'' @ [CHR 0x0A])) [])
      bob_installed (str ''bob.core._core'') (str ''bob-core-py'')
     = Inl (KeyError ''libraries'')"
    by (simp add: setup_extension_def pkgconfig_def posix_env_def exits_def decode_utf8_def
        split_def str_isspace_def caged_dirs_def classify_lookup target_def payload_def
        flag_map_cases bucket_def)
  have some: "map_sum id ext_libraries
       (setup_extension staged_env bob_installed (str ''bob.core._core'') (str ''bob-core-py''))
     = Inr [str ''bob_core'']"
    unfolding staged_setup_extension by simp
  show ?thesis
    using setup_extension_libraries
      [of "posix_env (exits 0 (''-I/usr/include -O2'' @ [CHR 0x0A])) []" "str ''bob-core-py''"
        bob_installed]
    by (simp only: none some simp_thms)
qed

text \<open>
  The claim as written fails: two different extensions whose package is not found fail
  with one and the same error, which carries the key \<^verbatim>\<open>libraries\<close> and nothing of the
  extension's name.
\<close>

theorem setup_extension_libraries_counterexample:
  "setup_extension (posix_env (exits 1 ''No package found'') []) bob_installed
      (str ''bob.core._core'') (str ''bob-core-py'')
     = Inl (KeyError ''libraries'')
   \<and> setup_extension (posix_env (exits 1 ''No package found'') []) bob_installed
      (str ''bob.io._io'') (str ''bob-io-py'')
     = Inl (KeyError ''libraries'')"
  by (simp add: setup_extension_def pkgconfig_def posix_env_def exits_def decode_utf8_def
      caged_dirs_def)

section \<open>Properties of the linker probe\<close>

lemma str_find_ge: "- 1 \<le> str_find s sub"
  by (induction s) (auto simp: Let_def)

lemma str_find_0_iff: "str_find s sub = 0 \<longleftrightarrow> prefix sub s"
proof (cases s)
  case Nil
  then show ?thesis by auto
next
  case (Cons c r)
  show ?thesis
    using str_find_ge [of r sub] by (auto simp: Cons Let_def)
qed

lemma ld_ok_iff: "ld_ok opt \<longleftrightarrow> \<not> prefix (str ''-L'') opt"
  by (simp add: ld_ok_def str_find_0_iff)

lemma ld_ok_flag: "ld_ok (str ''-Wl,--no-as-needed'')"
  by (simp add: ld_ok_iff)

lemma lcrs_cases:
  "linker_can_remove_symbols tc linker w = (r, w') \<Longrightarrow>
     base_builds w' = base_builds w
   \<and> (link_attempts w' = link_attempts w \<and> mkstemp_calls w' = mkstemp_calls w \<and> files w' = files w
        \<and> (\<exists>err. r = Inl err)
      \<or> (\<exists>name. mkstemp tc (files w) = Inr name
           \<and> link_attempts w' = link_attempts w
                @ [linker @ [str ''-Wl,--no-as-needed'', str ''-lm'', str ''-o'', name]]
           \<and> mkstemp_calls w' = Suc (mkstemp_calls w)))"
  by (auto simp: linker_can_remove_symbols_def Let_def split: sum.splits if_splits)

lemma get_linker_is_smart_simps:
  "get_linker_is_smart (set_linker_so self l) = get_linker_is_smart self"
  "get_linker_is_smart (self\<lparr>self_linker_is_smart := Some v\<rparr>) = v"
  "get_linker_is_smart (self\<lparr>compiler := c\<rparr>) = get_linker_is_smart self"
  by (simp_all add: get_linker_is_smart_def set_linker_so_def)

lemma build_extension_cached:
  assumes "get_linker_is_smart self = Some b"
    and "build_extension tc ext self w = (r, self', w')"
  shows "get_linker_is_smart self' = Some b
       \<and> linker_so (compiler self') = filter ld_ok (linker_so (compiler self))
       \<and> link_attempts w' = link_attempts w
       \<and> mkstemp_calls w' = mkstemp_calls w
       \<and> files w' = files w
       \<and> base_builds w' = base_builds w @ [linker_so (compiler self')]"
  using assms
  by (auto simp: build_extension_def probe_once_def get_linker_is_smart_simps Let_def
      set_linker_so_def)

lemma build_extension_probing:
  assumes "get_linker_is_smart self = None"
    and "linker_can_remove_symbols tc (filter ld_ok (linker_so (compiler self))) w = (res, w1)"
    and "build_extension tc ext self w = (r, self', w')"
  shows "(\<forall>err. res = Inl err \<longrightarrow>
            r = Some err \<and> get_linker_is_smart self' = None
          \<and> linker_so (compiler self') = filter ld_ok (linker_so (compiler self))
          \<and> w' = w1)
       \<and> (\<forall>smart. res = Inr smart \<longrightarrow>
            get_linker_is_smart self' = Some smart
          \<and> linker_so (compiler self')
              = filter ld_ok (linker_so (compiler self))
                @ (if smart then [str ''-Wl,--no-as-needed''] else [])
          \<and> w' = w1\<lparr>base_builds := base_builds w1 @ [linker_so (compiler self')]\<rparr>)"
  using assms
  by (cases res)
     (auto simp: build_extension_def probe_once_def get_linker_is_smart_simps Let_def
        set_linker_so_def)


lemma build_extensions_cached:
  assumes "get_linker_is_smart self = Some b"
    and "build_extensions tc exts self w = (self', w')"
  shows "get_linker_is_smart self' = Some b
       \<and> link_attempts w' = link_attempts w
       \<and> mkstemp_calls w' = mkstemp_calls w
       \<and> files w' = files w"
  using assms
proof (induction exts arbitrary: self w)
  case Nil
  then show ?case by simp
next
  case (Cons ext exts)
  obtain r self1 w1 where step: "build_extension tc ext self w = (r, self1, w1)"
    by (cases "build_extension tc ext self w") auto
  have rest: "build_extensions tc exts self1 w1 = (self', w')"
    using Cons.prems(2) step by simp
  have one: "get_linker_is_smart self1 = Some b" "link_attempts w1 = link_attempts w"
    "mkstemp_calls w1 = mkstemp_calls w" "files w1 = files w"
    using build_extension_cached [OF Cons.prems(1) step] by simp_all
  show ?case
    using Cons.IH [OF one(1) rest] one by simp
qed

lemma build_extension_sanitized:
  assumes fb: "filter ld_ok fb = fb"
    and J: "filter ld_ok (linker_so (compiler self)) = fb
            \<or> get_linker_is_smart self \<noteq> None
              \<and> filter ld_ok (linker_so (compiler self)) = fb @ [str ''-Wl,--no-as-needed'']"
    and step: "build_extension tc ext self w = (r, self', w')"
  shows "(linker_so (compiler self') = fb
          \<or> get_linker_is_smart self' \<noteq> None
            \<and> linker_so (compiler self') = fb @ [str ''-Wl,--no-as-needed''])
       \<and> (\<exists>ls. base_builds w' = base_builds w @ ls
              \<and> set ls \<subseteq> {fb, fb @ [str ''-Wl,--no-as-needed'']})
       \<and> (\<exists>as. link_attempts w' = link_attempts w @ as
              \<and> (\<forall>cmd \<in> set as. \<exists>name.
                    cmd = fb @ [str ''-Wl,--no-as-needed'', str ''-lm'', str ''-o'', name]))"
proof (cases "get_linker_is_smart self")
  case (Some b)
  note c = build_extension_cached [OF Some step]
  show ?thesis
    using c J Some by auto
next
  case None
  then have f: "filter ld_ok (linker_so (compiler self)) = fb"
    using J by simp
  obtain res w1 where p: "linker_can_remove_symbols tc fb w = (res, w1)"
    by (cases "linker_can_remove_symbols tc fb w") auto
  note l = lcrs_cases [OF p]
  note b = build_extension_probing [OF None p [folded f] step, unfolded f]
  show ?thesis
  proof (cases res)
    case (Inl err)
    then show ?thesis using b l by auto
  next
    case (Inr smart)
    then show ?thesis using b l by auto
  qed
qed

lemma build_extensions_sanitized:
  assumes fb: "filter ld_ok fb = fb"
    and J: "filter ld_ok (linker_so (compiler self)) = fb
            \<or> get_linker_is_smart self \<noteq> None
              \<and> filter ld_ok (linker_so (compiler self)) = fb @ [str ''-Wl,--no-as-needed'']"
    and run: "build_extensions tc exts self w = (self', w')"
  shows "(\<exists>ls. base_builds w' = base_builds w @ ls
              \<and> set ls \<subseteq> {fb, fb @ [str ''-Wl,--no-as-needed'']})
       \<and> (\<exists>as. link_attempts w' = link_attempts w @ as
              \<and> (\<forall>cmd \<in> set as. \<exists>name.
                    cmd = fb @ [str ''-Wl,--no-as-needed'', str ''-lm'', str ''-o'', name]))
       \<and> (exts \<noteq> [] \<longrightarrow> linker_so (compiler self') = fb
              \<or> linker_so (compiler self') = fb @ [str ''-Wl,--no-as-needed''])"
  using J run
proof (induction exts arbitrary: self w)
  case Nil
  then show ?case by simp
next
  case (Cons ext exts)
  obtain r self1 w1 where step: "build_extension tc ext self w = (r, self1, w1)"
    by (cases "build_extension tc ext self w") auto
  have rest: "build_extensions tc exts self1 w1 = (self', w')"
    using Cons.prems(2) step by simp
  note one = build_extension_sanitized [OF fb Cons.prems(1) step]
  have J1: "filter ld_ok (linker_so (compiler self1)) = fb
            \<or> get_linker_is_smart self1 \<noteq> None
              \<and> filter ld_ok (linker_so (compiler self1)) = fb @ [str ''-Wl,--no-as-needed'']"
    using one fb ld_ok_flag by auto
  note more = Cons.IH [OF J1 rest]
  obtain ls1 as1 where l1: "base_builds w1 = base_builds w @ ls1"
      "set ls1 \<subseteq> {fb, fb @ [str ''-Wl,--no-as-needed'']}"
      "link_attempts w1 = link_attempts w @ as1"
      "\<forall>cmd \<in> set as1. \<exists>name.
         cmd = fb @ [str ''-Wl,--no-as-needed'', str ''-lm'', str ''-o'', name]"
    using one by blast
  obtain ls2 as2 where l2: "base_builds w' = base_builds w1 @ ls2"
      "set ls2 \<subseteq> {fb, fb @ [str ''-Wl,--no-as-needed'']}"
      "link_attempts w' = link_attempts w1 @ as2"
      "\<forall>cmd \<in> set as2. \<exists>name.
         cmd = fb @ [str ''-Wl,--no-as-needed'', str ''-lm'', str ''-o'', name]"
    using more by blast
  have a: "base_builds w' = base_builds w @ (ls1 @ ls2)"
    "set (ls1 @ ls2) \<subseteq> {fb, fb @ [str ''-Wl,--no-as-needed'']}"
    using l1 l2 by auto
  have b: "link_attempts w' = link_attempts w @ (as1 @ as2)"
    "\<forall>cmd \<in> set (as1 @ as2). \<exists>name.
         cmd = fb @ [str ''-Wl,--no-as-needed'', str ''-lm'', str ''-o'', name]"
    using l1 l2 by auto
  have c: "linker_so (compiler self') = fb
           \<or> linker_so (compiler self') = fb @ [str ''-Wl,--no-as-needed'']"
  proof (cases exts)
    case Nil
    then have "self' = self1" using rest by simp
    then show ?thesis using one by blast
  next
    case (Cons e es)
    then show ?thesis using more by blast
  qed
  show ?case
    using a b c by blast
qed

lemma three_builds_value:
  "three_builds
   = (\<lparr>self_linker_is_smart = Some (Some True),
       compiler = \<lparr>linker_so = [str ''gcc'', str ''-shared'', str ''-pthread'', str ''-Wl,--no-as-needed''],
                   dll_libraries = NoAttr\<rparr>\<rparr>,
      \<lparr>files = {},
       link_attempts = [[str ''gcc'', str ''-shared'', str ''-pthread'', str ''-Wl,--no-as-needed'', str ''-lm'', str ''-o'', str ''/tmp/tmpq3x'']],
       mkstemp_calls = 1,
       base_builds = [[str ''gcc'', str ''-shared'', str ''-pthread'', str ''-Wl,--no-as-needed''],
                      [str ''gcc'', str ''-shared'', str ''-pthread'', str ''-Wl,--no-as-needed''],
                      [str ''gcc'', str ''-shared'', str ''-pthread'', str ''-Wl,--no-as-needed'']]\<rparr>)"
  by (simp add: three_builds_def build_extension_def probe_once_def new_build_ext_def set_linker_so_def
      get_linker_is_smart_def class_linker_is_smart_def ld_ok_iff gcc_def
      linker_can_remove_symbols_def gnu_toolchain_def empty_world_def decode_utf8_def Let_def)

text \<open>
  Claim C4, as the code has it. Once \<^verbatim>\<open>mkstemp\<close> has made the temporary file: when the
  link attempt runs to its end, whether it exits with status zero or not, and its output
  is valid UTF-8, the probe returns with the temporary file removed. When the linker
  cannot be started the exception leaves the probe with the file still there, and when
  the output is not valid UTF-8 the file is there if the linker left it: nothing removes
  it on these paths.
\<close>

theorem probe_cleanup:
  assumes "mkstemp tc (files w) = Inr name"
  shows "(\<forall>p output.
            run_linker tc (linker @ [str ''-Wl,--no-as-needed'', str ''-lm'', str ''-o'', name]) = Inr p
          \<and> decode_utf8 (stdout p) = Inr output
          \<longrightarrow> (\<exists>w'. linker_can_remove_symbols tc linker w = (Inr (returncode p = 0), w')
                 \<and> name \<notin> files w' \<and> files w' = files w - {name}))
       \<and> (\<forall>err.
            run_linker tc (linker @ [str ''-Wl,--no-as-needed'', str ''-lm'', str ''-o'', name]) = Inl err
          \<longrightarrow> (\<exists>w'. linker_can_remove_symbols tc linker w = (Inl err, w') \<and> name \<in> files w'))
       \<and> (\<forall>p.
            run_linker tc (linker @ [str ''-Wl,--no-as-needed'', str ''-lm'', str ''-o'', name]) = Inr p
          \<and> decode_utf8 (stdout p) = Inl UnicodeDecodeError
          \<longrightarrow> (\<exists>w'. linker_can_remove_symbols tc linker w = (Inl UnicodeDecodeError, w')
                 \<and> (name \<in> files w' \<longleftrightarrow> output_left p)))"
  using assms
  by (auto simp: linker_can_remove_symbols_def Let_def)

theorem probe_cleanup_witness:
  "fst (linker_can_remove_symbols gnu_toolchain [str ''gcc''] empty_world) = Inr True
   \<and> str ''/tmp/tmpq3x'' \<notin> files (snd (linker_can_remove_symbols gnu_toolchain [str ''gcc''] empty_world))
   \<and> fst (linker_can_remove_symbols old_linker [str ''gcc''] empty_world) = Inr False
   \<and> str ''/tmp/tmpq3x'' \<notin> files (snd (linker_can_remove_symbols old_linker [str ''gcc''] empty_world))"
proof -
  have m1: "mkstemp gnu_toolchain (files empty_world) = Inr (str ''/tmp/tmpq3x'')"
    by (simp add: gnu_toolchain_def)
  have m2: "mkstemp old_linker (files empty_world) = Inr (str ''/tmp/tmpq3x'')"
    by (simp add: old_linker_def)
  have r1: "run_linker gnu_toolchain
              ([str ''gcc''] @ [str ''-Wl,--no-as-needed'', str ''-lm'', str ''-o'', str ''/tmp/tmpq3x''])
            = Inr \<lparr>returncode = 0, stdout = [], output_left = True\<rparr>
            \<and> decode_utf8 (stdout \<lparr>returncode = 0, stdout = [], output_left = True\<rparr>) = Inr []"
    by (simp add: gnu_toolchain_def decode_utf8_def)
  have r2: "run_linker old_linker
              ([str ''gcc''] @ [str ''-Wl,--no-as-needed'', str ''-lm'', str ''-o'', str ''/tmp/tmpq3x''])
            = Inr \<lparr>returncode = 1, stdout = ''ld: unrecognized option'', output_left = False\<rparr>
            \<and> decode_utf8 (stdout \<lparr>returncode = 1, stdout = ''ld: unrecognized option'',
                                   output_left = False\<rparr>)
              = Inr (str ''ld: unrecognized option'')"
    by (simp add: old_linker_def decode_utf8_def)
  have a: "\<exists>w'. linker_can_remove_symbols gnu_toolchain [str ''gcc''] empty_world = (Inr True, w')
             \<and> str ''/tmp/tmpq3x'' \<notin> files w'"
    using probe_cleanup [OF m1, of "[str ''gcc'']"] r1 by fastforce
  have b: "\<exists>w'. linker_can_remove_symbols old_linker [str ''gcc''] empty_world = (Inr False, w')
             \<and> str ''/tmp/tmpq3x'' \<notin> files w'"
    using probe_cleanup [OF m2, of "[str ''gcc'']"] r2 by fastforce
  show ?thesis
    using a b by auto
qed

text \<open>
  The claim as written fails on the path of an exception: with a linker that cannot be
  started the probe raises \<^verbatim>\<open>OSError\<close> and the temporary file remains.
\<close>

theorem probe_cleanup_counterexample:
  "fst (linker_can_remove_symbols no_linker [str ''gcc''] empty_world) = Inl OSError
   \<and> files (snd (linker_can_remove_symbols no_linker [str ''gcc''] empty_world)) = {str ''/tmp/tmpq3x''}"
  by (simp add: linker_can_remove_symbols_def no_linker_def empty_world_def Let_def)

text \<open>
  Claim C9. Let a command object run any builds, from any state. Every linker invocation
  the probe starts is the base invocation without its tokens that begin with \<^verbatim>\<open>-L\<close>,
  the other tokens kept in their order, followed by the probe's own arguments; every link
  of the base class is given that same filtered invocation, with the capability flag
  after it once the probe has found it; and so is the invocation left in the compiler.
\<close>

theorem linker_search_paths_removed:
  fixes self :: build_ext and fb :: "pystr list"
  defines "fb \<equiv> filter (\<lambda>k. \<not> prefix (str ''-L'') k) (linker_so (compiler self))"
  assumes "build_extensions tc exts self w = (self', w')"
  shows "(\<exists>probes. link_attempts w' = link_attempts w @ probes
            \<and> (\<forall>cmd \<in> set probes. \<exists>name.
                  cmd = fb @ [str ''-Wl,--no-as-needed'', str ''-lm'', str ''-o'', name]))
       \<and> (\<exists>links. base_builds w' = base_builds w @ links
            \<and> (\<forall>l \<in> set links. l = fb \<or> l = fb @ [str ''-Wl,--no-as-needed'']))
       \<and> (exts \<noteq> [] \<longrightarrow> linker_so (compiler self') = fb
            \<or> linker_so (compiler self') = fb @ [str ''-Wl,--no-as-needed''])"
proof -
  have f: "fb = filter ld_ok (linker_so (compiler self))"
    unfolding fb_def by (rule filter_cong) (simp_all add: ld_ok_iff)
  have idem: "filter ld_ok fb = fb"
    by (simp add: f)
  show ?thesis
    using build_extensions_sanitized [OF idem _ assms(2)] f by blast
qed

theorem linker_search_paths_removed_witness:
  "link_attempts (snd three_builds)
     = [[str ''gcc'', str ''-shared'', str ''-pthread'', str ''-Wl,--no-as-needed'', str ''-lm'',
         str ''-o'', str ''/tmp/tmpq3x'']]
   \<and> set (base_builds (snd three_builds))
     = {[str ''gcc'', str ''-shared'', str ''-pthread'', str ''-Wl,--no-as-needed'']}
   \<and> linker_so gcc = [str ''gcc'', str ''-shared'', str ''-L/opt/stale/lib'', str ''-pthread'']"
proof -
  have run: "build_extensions gnu_toolchain [core_ext, core_ext, core_ext] (new_build_ext gcc)
               empty_world = (fst three_builds, snd three_builds)"
    by (simp add: three_builds_def)
  have v: "link_attempts (snd three_builds)
     = [[str ''gcc'', str ''-shared'', str ''-pthread'', str ''-Wl,--no-as-needed'', str ''-lm'',
         str ''-o'', str ''/tmp/tmpq3x'']]"
    "set (base_builds (snd three_builds))
     = {[str ''gcc'', str ''-shared'', str ''-pthread'', str ''-Wl,--no-as-needed'']}"
    unfolding three_builds_value by simp_all
  have g: "linker_so gcc = [str ''gcc'', str ''-shared'', str ''-L/opt/stale/lib'', str ''-pthread'']"
    by (simp add: gcc_def)
  show ?thesis
    using linker_search_paths_removed [OF run]
    by (simp only: v g simp_thms)
qed

text \<open>
  Claim C3, as the code has it. The result of the probe is kept in the command object:
  the assignment binds \<^verbatim>\<open>linker_is_smart\<close> in the instance, the class attribute stays
  \<^verbatim>\<open>None\<close>. Once it is set in a command object, no later build by that object starts a
  link attempt or makes a temporary file, and the value never changes. A command object
  whose first build completes the probe makes exactly one link attempt and one temporary
  file over all its builds. A new command object starts with no value.
\<close>

theorem linker_probe_cached:
  "(\<forall>b self' w'.
       get_linker_is_smart self = Some b \<and> build_extensions tc exts self w = (self', w')
       \<longrightarrow> get_linker_is_smart self' = Some b
         \<and> link_attempts w' = link_attempts w
         \<and> mkstemp_calls w' = mkstemp_calls w
         \<and> files w' = files w)
   \<and> (\<forall>smart w1 self' w'.
       get_linker_is_smart self = None
       \<and> linker_can_remove_symbols tc (filter ld_ok (linker_so (compiler self))) w = (Inr smart, w1)
       \<and> build_extensions tc (ext # exts) self w = (self', w')
       \<longrightarrow> get_linker_is_smart self' = Some smart
         \<and> link_attempts w' = link_attempts w1
         \<and> length (link_attempts w') = Suc (length (link_attempts w))
         \<and> mkstemp_calls w' = Suc (mkstemp_calls w))
   \<and> get_linker_is_smart (new_build_ext c) = None"
proof -
  have cached: "\<forall>b self' w'.
       get_linker_is_smart self = Some b \<and> build_extensions tc exts self w = (self', w')
       \<longrightarrow> get_linker_is_smart self' = Some b
         \<and> link_attempts w' = link_attempts w
         \<and> mkstemp_calls w' = mkstemp_calls w
         \<and> files w' = files w"
    using build_extensions_cached by blast
  have first: "\<forall>smart w1 self' w'.
       get_linker_is_smart self = None
       \<and> linker_can_remove_symbols tc (filter ld_ok (linker_so (compiler self))) w = (Inr smart, w1)
       \<and> build_extensions tc (ext # exts) self w = (self', w')
       \<longrightarrow> get_linker_is_smart self' = Some smart
         \<and> link_attempts w' = link_attempts w1
         \<and> length (link_attempts w') = Suc (length (link_attempts w))
         \<and> mkstemp_calls w' = Suc (mkstemp_calls w)"
  proof (intro allI impI)
    fix smart w1 self' w'
    assume a: "get_linker_is_smart self = None
       \<and> linker_can_remove_symbols tc (filter ld_ok (linker_so (compiler self))) w = (Inr smart, w1)
       \<and> build_extensions tc (ext # exts) self w = (self', w')"
    obtain r self1 w2 where step: "build_extension tc ext self w = (r, self1, w2)"
      by (cases "build_extension tc ext self w") auto
    have rest: "build_extensions tc exts self1 w2 = (self', w')"
      using a step by simp
    have one: "get_linker_is_smart self1 = Some smart"
      "w2 = w1\<lparr>base_builds := base_builds w1 @ [linker_so (compiler self1)]\<rparr>"
      using build_extension_probing [of self tc w "Inr smart" w1 ext r self1 w2] a step
      by simp_all
    have probe: "length (link_attempts w1) = Suc (length (link_attempts w))"
      "mkstemp_calls w1 = Suc (mkstemp_calls w)"
      using lcrs_cases [of tc "filter ld_ok (linker_so (compiler self))" w "Inr smart" w1] a
      by auto
    note later = build_extensions_cached [OF one(1) rest]
    show "get_linker_is_smart self' = Some smart
         \<and> link_attempts w' = link_attempts w1
         \<and> length (link_attempts w') = Suc (length (link_attempts w))
         \<and> mkstemp_calls w' = Suc (mkstemp_calls w)"
      using later one(2) probe by simp
  qed
  have fresh: "get_linker_is_smart (new_build_ext c) = None"
    by (simp add: get_linker_is_smart_def new_build_ext_def class_linker_is_smart_def)
  show ?thesis
    using cached first fresh by (intro conjI)
qed

theorem linker_probe_cached_witness:
  "get_linker_is_smart (new_build_ext gcc) = None
   \<and> get_linker_is_smart (fst three_builds) = Some True
   \<and> length (link_attempts (snd three_builds)) = 1
   \<and> mkstemp_calls (snd three_builds) = 1"
proof -
  have none: "get_linker_is_smart (new_build_ext gcc) = None"
    by (simp add: get_linker_is_smart_def new_build_ext_def class_linker_is_smart_def)
  have probe: "linker_can_remove_symbols gnu_toolchain
                 (filter ld_ok (linker_so (compiler (new_build_ext gcc)))) empty_world
               = (Inr True,
                  \<lparr>files = {},
                   link_attempts = [[str ''gcc'', str ''-shared'', str ''-pthread'',
                       str ''-Wl,--no-as-needed'', str ''-lm'', str ''-o'', str ''/tmp/tmpq3x'']],
                   mkstemp_calls = 1, base_builds = []\<rparr>)"
    by (simp add: new_build_ext_def ld_ok_iff gcc_def linker_can_remove_symbols_def
        gnu_toolchain_def empty_world_def decode_utf8_def Let_def)
  have run: "build_extensions gnu_toolchain (core_ext # [core_ext, core_ext]) (new_build_ext gcc)
               empty_world = (fst three_builds, snd three_builds)"
    by (simp add: three_builds_def)
  have "get_linker_is_smart (fst three_builds) = Some True
        \<and> link_attempts (snd three_builds)
          = link_attempts \<lparr>files = {},
                   link_attempts = [[str ''gcc'', str ''-shared'', str ''-pthread'',
                       str ''-Wl,--no-as-needed'', str ''-lm'', str ''-o'', str ''/tmp/tmpq3x'']],
                   mkstemp_calls = 1, base_builds = []\<rparr>
        \<and> length (link_attempts (snd three_builds)) = Suc (length (link_attempts empty_world))
        \<and> mkstemp_calls (snd three_builds) = Suc (mkstemp_calls empty_world)"
    using linker_probe_cached
      [of "new_build_ext gcc" gnu_toolchain "[core_ext, core_ext]" empty_world core_ext gcc]
      none probe run
    by blast
  then show ?thesis
    using none by (simp add: empty_world_def)
qed

text \<open>
  The claim as written fails: two command objects in one process start two link
  attempts and make two temporary files; and a command object whose probe raised probes
  again at its next build.
\<close>

theorem linker_probe_cached_counterexample:
  "length (link_attempts (snd (snd first_command))) = 1
   \<and> length (link_attempts (snd (snd second_command))) = 2
   \<and> mkstemp_calls (snd (snd second_command)) = 2
   \<and> fst failed_probe = Some OSError
   \<and> length (link_attempts (snd (snd failed_probe))) = 1
   \<and> length (link_attempts (snd (snd probe_again))) = 2"
  by (simp add: first_command_def second_command_def failed_probe_def probe_again_def
      build_extension_def probe_once_def new_build_ext_def set_linker_so_def
      get_linker_is_smart_def class_linker_is_smart_def ld_ok_iff gcc_def
      linker_can_remove_symbols_def gnu_toolchain_def no_linker_def empty_world_def
      decode_utf8_def Let_def)

section \<open>Properties of the registry of filters\<close>

lemma filters_loop_filter:
  "filters_loop Filter FILTERS items = FILTERS @ filter (is_filter Filter) (map snd items)"
  by (induction Filter FILTERS items rule: filters_loop.induct) auto

lemma discover_filter: "discover Filter scope = filter (is_filter Filter) (map snd scope)"
  by (simp add: discover_def filters_loop_filter)

lemma is_filter_iff:
  "is_filter Filter v \<longleftrightarrow> (\<exists>c. v = PyType c \<and> issubclass c Filter \<and> c \<noteq> Filter)"
  by (cases v) (auto simp: is_filter_def)

text \<open>
  Claim C8. A value is in \<^verbatim>\<open>FILTERS\<close> exactly when it is bound in the scope, is a class,
  is a subclass of \<^verbatim>\<open>Filter\<close> and is not \<^verbatim>\<open>Filter\<close> itself. A scope that binds the base
  and two proper descendants gives these two; a scope that binds only the base gives
  nothing.
\<close>

theorem discover_membership:
  "(v \<in> set (discover Filter scope) \<longleftrightarrow>
      (\<exists>k. (k, v) \<in> set scope) \<and> (\<exists>c. v = PyType c \<and> issubclass c Filter \<and> c \<noteq> Filter))
   \<and> (issubclass A Filter \<and> A \<noteq> Filter \<and> issubclass B Filter \<and> B \<noteq> Filter \<longrightarrow>
        set (discover Filter [(''Base'', PyType Filter), (''A'', PyType A), (''B'', PyType B)])
        = {PyType A, PyType B})
   \<and> discover Filter [(''Base'', PyType Filter)] = []"
proof -
  have m: "v \<in> set (discover Filter scope) \<longleftrightarrow>
      (\<exists>k. (k, v) \<in> set scope) \<and> (\<exists>c. v = PyType c \<and> issubclass c Filter \<and> c \<noteq> Filter)"
    by (force simp: discover_filter is_filter_iff)
  have two: "issubclass A Filter \<and> A \<noteq> Filter \<and> issubclass B Filter \<and> B \<noteq> Filter \<longrightarrow>
        set (discover Filter [(''Base'', PyType Filter), (''A'', PyType A), (''B'', PyType B)])
        = {PyType A, PyType B}"
    by (auto simp: discover_filter is_filter_def)
  have none: "discover Filter [(''Base'', PyType Filter)] = []"
    by (simp add: discover_filter is_filter_def)
  show ?thesis
    using m two none by (intro conjI)
qed

lemma module_filters: "discover Filter_cls filters_module = [PyType Crop_cls]"
  by (simp add: discover_def filters_module_def is_filter_def Filter_cls_def Crop_cls_def object_cls_def)

theorem discover_membership_witness:
  "discover Filter_cls filters_module = [PyType Crop_cls]
   \<and> set (discover Filter_cls
        [(''Base'', PyType Filter_cls), (''A'', PyType Crop_cls), (''B'', PyType Scale_cls)])
     = {PyType Crop_cls, PyType Scale_cls}"
proof -
  have sub: "issubclass Crop_cls Filter_cls \<and> Crop_cls \<noteq> Filter_cls
             \<and> issubclass Scale_cls Filter_cls \<and> Scale_cls \<noteq> Filter_cls"
    by (simp add: Filter_cls_def Crop_cls_def Scale_cls_def object_cls_def)
  show ?thesis
    using discover_membership [of "PyType Crop_cls" Filter_cls filters_module Crop_cls Scale_cls] sub
      module_filters
    by blast
qed

end
